theory Spec2Isabelle
  imports Complex_Main "HOL-Library.Sublist"
begin

section \<open>Python strings\<close>

text \<open>
  A Python \<open>str\<close> is modelled as a \<open>string\<close> holding its UTF-8 bytes. Substring
  containment on well-formed UTF-8 agrees with containment on code points. Case mapping is
  the ASCII one: the letters \<open>A\<close>..\<open>Z\<close> and \<open>a\<close>..\<open>z\<close> are mapped, every other byte
  (the CJK keywords of the repository included) is caseless. Whitespace is the ASCII
  whitespace of \<open>str.isspace\<close>.
\<close>

definition lower_char :: "char \<Rightarrow> char" where
  "lower_char c =
     (let n = (of_char c :: nat) in if 65 \<le> n \<and> n \<le> 90 then char_of (n + 32) else c)"

definition upper_char :: "char \<Rightarrow> char" where
  "upper_char c =
     (let n = (of_char c :: nat) in if 97 \<le> n \<and> n \<le> 122 then char_of (n - 32) else c)"

text \<open>\<^verbatim>\<open>s.lower()\<close> and \<^verbatim>\<open>s.upper()\<close>.\<close>

definition lower :: "string \<Rightarrow> string" where
  "lower s = map lower_char s"

definition upper :: "string \<Rightarrow> string" where
  "upper s = map upper_char s"

text \<open>\<^verbatim>\<open>t.startswith(s)\<close>, the helper of the substring test.\<close>

fun startswith :: "string \<Rightarrow> string \<Rightarrow> bool" where
  "startswith [] t = True"
| "startswith (a # s) [] = False"
| "startswith (a # s) (b # t) = (a = b \<and> startswith s t)"

text \<open>\<^verbatim>\<open>s in t\<close> on strings: \<open>s\<close> occurs in \<open>t\<close> as a contiguous substring.\<close>

fun contains :: "string \<Rightarrow> string \<Rightarrow> bool" where
  "contains s [] = (s = [])"
| "contains s (b # t) = (startswith s (b # t) \<or> contains s t)"

definition is_space :: "char \<Rightarrow> bool" where
  "is_space c =
     (let n = (of_char c :: nat) in n = 32 \<or> (9 \<le> n \<and> n \<le> 13) \<or> (28 \<le> n \<and> n \<le> 31))"

text \<open>
  \<^verbatim>\<open>s.split()\<close> without arguments: the maximal runs of non-whitespace, in order; no empty
  token. \<open>split_ws cur s\<close> carries the token being read.
\<close>

fun split_ws :: "string \<Rightarrow> string \<Rightarrow> string list" where
  "split_ws cur [] = (if cur = [] then [] else [cur])"
| "split_ws cur (c # s) =
     (if is_space c then (if cur = [] then split_ws [] s else cur # split_ws [] s)
      else split_ws (cur @ [c]) s)"

definition split :: "string \<Rightarrow> string list" where
  "split s = split_ws [] s"

text \<open>
  \<^verbatim>\<open>s.split(sep)\<close> for a one-character separator: every separator cuts, empty segments are
  kept, and the result is never empty.
\<close>

fun split_sep :: "char \<Rightarrow> string \<Rightarrow> string \<Rightarrow> string list" where
  "split_sep sep cur [] = [cur]"
| "split_sep sep cur (c # s) =
     (if c = sep then cur # split_sep sep [] s else split_sep sep (cur @ [c]) s)"

text \<open>\<^verbatim>\<open>sep.join(xs)\<close>.\<close>

fun join :: "string \<Rightarrow> string list \<Rightarrow> string" where
  "join sep [] = []"
| "join sep [x] = x"
| "join sep (x # y # ys) = x @ sep @ join sep (y # ys)"

section \<open>Errors\<close>

text \<open>The exceptions that the modelled code can raise; \<open>Inl\<close> of a sum is a raise.\<close>

datatype error = ValueError | TypeError | IndexError | AttributeError

section \<open>Query analysis (\<^verbatim>\<open>query_analyzer.py\<close>)\<close>

definition PRODUCT_LIST_KEYWORDS :: "string list" where
  "PRODUCT_LIST_KEYWORDS =
     [[CHR 0xE6, CHR 0x9C, CHR 0x89, CHR 0xE5, CHR 0x93, CHR 0xAA, CHR 0xE4, CHR 0xBA, CHR 0x9B,
       CHR 0xE7, CHR 0x94, CHR 0xA2, CHR 0xE5, CHR 0x93, CHR 0x81],
      [CHR 0xE7, CHR 0x94, CHR 0x9A, CHR 0xE9, CHR 0xBA, CHR 0xBC, CHR 0xE7, CHR 0x94, CHR 0xA2,
       CHR 0xE5, CHR 0x93, CHR 0x81],
      [CHR 0xE4, CHR 0xBB, CHR 0x80, CHR 0xE9, CHR 0xBA, CHR 0xBC, CHR 0xE7, CHR 0x94, CHR 0xA2,
       CHR 0xE5, CHR 0x93, CHR 0x81],
      ''what products'',
      ''list products'',
      ''available models'',
      [CHR 0xE6, CHR 0x89, CHR 0x80, CHR 0xE6, CHR 0x9C, CHR 0x89, CHR 0xE7, CHR 0x94, CHR 0xA2,
       CHR 0xE5, CHR 0x93, CHR 0x81],
      ''all products'',
      [CHR 0xE6, CHR 0x9C, CHR 0x89, CHR 0xE5, CHR 0x93, CHR 0xAA, CHR 0xE5, CHR 0xB9, CHR 0xBE,
       CHR 0xE5, CHR 0x8F, CHR 0xB0],
      [CHR 0xE6, CHR 0x9C, CHR 0x89, CHR 0xE5, CHR 0x93, CHR 0xAA, CHR 0xE5, CHR 0xB9, CHR 0xBE,
       CHR 0xE6, CHR 0xAC, CHR 0xBE]]"

definition COMPARISON_KEYWORDS :: "string list" where
  "COMPARISON_KEYWORDS =
     [[CHR 0xE6, CHR 0xAF, CHR 0x94, CHR 0xE8, CHR 0xBC, CHR 0x83],
      [CHR 0xE5, CHR 0xB7, CHR 0xAE, CHR 0xE7, CHR 0x95, CHR 0xB0],
      [CHR 0xE5, CHR 0xB7, CHR 0xAE, CHR 0xE5, CHR 0x88, CHR 0xA5],
      [CHR 0xE4, CHR 0xB8, CHR 0x8D, CHR 0xE5, CHR 0x90, CHR 0x8C],
      ''compare'',
      ''comparison'',
      ''difference'',
      ''vs'',
      ''versus'',
      [CHR 0xE7, CHR 0x94, CHR 0xA2, CHR 0xE5, CHR 0x93, CHR 0x81]]"

text \<open>
  The keyword loops of \<^verbatim>\<open>QueryFilter\<close>:
  \<^verbatim>\<open>for keyword in KEYWORDS: if keyword.lower() in query_lower: return True\<close>, then
  \<^verbatim>\<open>return False\<close>.
\<close>

fun keyword_loop :: "string list \<Rightarrow> string \<Rightarrow> bool" where
  "keyword_loop [] query_lower = False"
| "keyword_loop (keyword # rest) query_lower =
     (if contains (lower keyword) query_lower then True else keyword_loop rest query_lower)"

definition is_product_list_query :: "string \<Rightarrow> bool" where
  "is_product_list_query query = keyword_loop PRODUCT_LIST_KEYWORDS (lower query)"

definition is_comparison_query :: "string \<Rightarrow> bool" where
  "is_comparison_query query = keyword_loop COMPARISON_KEYWORDS (lower query)"

text \<open>
  A product of the catalog is a JSON object, read with \<^verbatim>\<open>p.get(key)\<close>: a partial map
  from keys to strings.
\<close>

type_synonym product = "string \<rightharpoonup> string"

text \<open>
  \<^verbatim>\<open>ProductNameExtractor\<close>: \<open>known_models\<close> holds the pairs
  \<^verbatim>\<open>(p.get("product_id"), p.get("product_name"))\<close>; the attribute \<open>fallback_suffixes\<close>
  exists only when \<open>known_models\<close> is empty (\<open>None\<close> is the missing attribute).
\<close>

record ProductNameExtractor =
  known_models :: "(string option \<times> string option) list"
  fallback_suffixes :: "string list option"

definition ProductNameExtractor_init :: "product list option \<Rightarrow> ProductNameExtractor" where
  "ProductNameExtractor_init product_list =
     (let km = (case product_list of
                  None \<Rightarrow> []
                | Some ps \<Rightarrow> map (\<lambda>p. (p ''product_id'', p ''product_name'')) ps)
      in \<lparr>known_models = km,
          fallback_suffixes = (if km = [] then Some [''BXH'', ''BYH'', ''BZH''] else None)\<rparr>)"

text \<open>\<^verbatim>\<open>pid.split("-")[-1].upper()\<close>\<close>

definition suffix_of :: "string \<Rightarrow> string" where
  "suffix_of pid = upper (last (split_sep CHR ''-'' [] pid))"

text \<open>
  The loop over \<open>known_models\<close>; \<open>Inr None\<close> is falling out of the loop. A pair whose id
  is \<open>None\<close> makes \<^verbatim>\<open>pid.split\<close> raise \<open>AttributeError\<close>.
\<close>

fun models_loop :: "(string option \<times> string option) list \<Rightarrow> string \<Rightarrow> error + string option" where
  "models_loop [] query_upper = Inr None"
| "models_loop ((pid, pname) # rest) query_upper =
     (case pid of
        None \<Rightarrow> Inl AttributeError
      | Some p \<Rightarrow> if contains (suffix_of p) query_upper then Inr (Some p)
                  else models_loop rest query_upper)"

fun fallback_loop :: "string list \<Rightarrow> string \<Rightarrow> string option" where
  "fallback_loop [] query_upper = None"
| "fallback_loop (model # rest) query_upper =
     (if contains model query_upper then Some model else fallback_loop rest query_upper)"

definition ProductNameExtractor_extract :: "ProductNameExtractor \<Rightarrow> string \<Rightarrow> error + string option" where
  "ProductNameExtractor_extract ex query =
     (let query_upper = upper query in
      case (if known_models ex \<noteq> [] then models_loop (known_models ex) query_upper
            else Inr None) of
        Inl e \<Rightarrow> Inl e
      | Inr (Some pid) \<Rightarrow> Inr (Some pid)
      | Inr None \<Rightarrow>
          (case fallback_suffixes ex of
             Some fb \<Rightarrow> Inr (fallback_loop fb query_upper)
           | None \<Rightarrow> Inr None))"

text \<open>
  The matching rule in the words of the specification: the first product in catalog order
  whose suffix, upper-cased, occurs in the upper-cased query.
\<close>

definition first_suffix_match :: "string list \<Rightarrow> string \<Rightarrow> string option" where
  "first_suffix_match pids query = find (\<lambda>pid. contains (suffix_of pid) (upper query)) pids"

section \<open>Vectors and NumPy\<close>

text \<open>
  Scores and vector components are real numbers: the model is the exact arithmetic that the
  \<open>float32\<close>/\<open>float64\<close> computation of the code approximates. The embedder is an external
  collaborator, a function from text to a vector.
\<close>

type_synonym embedder = "string \<Rightarrow> real list"

text \<open>\<^verbatim>\<open>np.linalg.norm(v)\<close>\<close>

definition l2norm :: "real list \<Rightarrow> real" where
  "l2norm v = sqrt (\<Sum>x\<leftarrow>v. x * x)"

text \<open>\<^verbatim>\<open>v / (np.linalg.norm(v) + 1e-10)\<close>\<close>

definition normalize :: "real list \<Rightarrow> real list" where
  "normalize v = map (\<lambda>x. x / (l2norm v + 1 / 10 ^ 10)) v"

definition dot :: "real list \<Rightarrow> real list \<Rightarrow> real" where
  "dot u v = (\<Sum>(a, b)\<leftarrow>zip u v. a * b)"

text \<open>
  \<^verbatim>\<open>np.stack(rows)\<close> raises \<open>ValueError\<close> on an empty list and on rows of different
  lengths; \<^verbatim>\<open>np.dot(m, q)\<close> of a matrix and a vector raises \<open>ValueError\<close> when the row
  length is not the length of \<open>q\<close>.
\<close>

definition np_stack :: "real list list \<Rightarrow> error + real list list" where
  "np_stack rows =
     (if rows = [] \<or> \<not> list_all (\<lambda>r. length r = length (hd rows)) rows then Inl ValueError
      else Inr rows)"

definition np_dot :: "real list list \<Rightarrow> real list \<Rightarrow> error + real list" where
  "np_dot m q =
     (if list_all (\<lambda>r. length r = length q) m then Inr (map (\<lambda>r. dot r q) m)
      else Inl ValueError)"

text \<open>
  \<^verbatim>\<open>np.argsort(scores)\<close> is NumPy's, not the repository's: like the embedder it is a
  parameter of the model, a function from the scores to a list of indices. What NumPy
  promises of it is \<open>argsort_ok\<close>: the result lists every index once, in ascending order
  of score. The default sort kind, which the code uses, promises no order among equal
  scores. A theorem that reads positions of the ranking assumes \<open>argsort_ok\<close>; the
  others hold for every function.
\<close>

type_synonym argsorter = "real list \<Rightarrow> nat list"

definition argsort_ok :: "argsorter \<Rightarrow> bool" where
  "argsort_ok argsort =
     (\<forall>scores. distinct (argsort scores)
        \<and> set (argsort scores) = {0..<length scores}
        \<and> sorted (map (\<lambda>i. scores ! i) (argsort scores)))"

text \<open>\<^verbatim>\<open>xs[:k]\<close>; a negative \<open>k\<close> drops \<open>-k\<close> elements from the end.\<close>

definition slice_to :: "int \<Rightarrow> 'a list \<Rightarrow> 'a list" where
  "slice_to k xs = (if 0 \<le> k then take (nat k) xs else take (length xs - nat (- k)) xs)"

text \<open>\<^verbatim>\<open>np.argsort(scores)[::-1][:top_k]\<close>\<close>

definition top_indices :: "argsorter \<Rightarrow> int \<Rightarrow> real list \<Rightarrow> nat list" where
  "top_indices argsort top_k scores = slice_to top_k (rev (argsort scores))"

section \<open>Data model (\<^verbatim>\<open>models.py\<close>)\<close>

text \<open>
  The dataclasses \<^verbatim>\<open>Chunk\<close> and \<^verbatim>\<open>QAItem\<close>; equality is equality of the fields, as
  the generated \<^verbatim>\<open>__eq__\<close> has it. The metadata dictionary is a partial map.
\<close>

record Chunk =
  content :: string
  metadata :: "string \<rightharpoonup> string"

record QAItem =
  question :: string
  answer :: string
  product_name :: string

section \<open>Chunk retrieval (\<^verbatim>\<open>retriever.py\<close>, \<^verbatim>\<open>ChunkRetriever\<close>)\<close>

text \<open>The attribute \<open>vectors\<close> is \<open>None\<close> until \<^verbatim>\<open>add_chunks\<close> has stacked the rows.\<close>

record ChunkRetriever =
  chunks :: "Chunk list"
  vectors :: "real list list option"

definition ChunkRetriever_init :: "ChunkRetriever" where
  "ChunkRetriever_init = \<lparr>chunks = [], vectors = None\<rparr>"

definition add_chunks :: "embedder \<Rightarrow> Chunk list \<Rightarrow> error + ChunkRetriever" where
  "add_chunks emb cs =
     (case np_stack (map (\<lambda>chunk. emb (content chunk)) cs) of
        Inl e \<Rightarrow> Inl e
      | Inr m \<Rightarrow> Inr \<lparr>chunks = cs, vectors = Some (map normalize m)\<rparr>)"

text \<open>\<^verbatim>\<open>xs.index(x)\<close>: the first position holding a value equal to \<open>x\<close>; \<open>None\<close> is the
  \<open>ValueError\<close> that the caller catches.\<close>

fun index_of :: "'a list \<Rightarrow> 'a \<Rightarrow> nat option" where
  "index_of [] x = None"
| "index_of (y # ys) x = (if y = x then Some 0 else map_option Suc (index_of ys x))"

text \<open>
  The loop that resolves the candidates against the corpus, filling \<open>target_indices\<close> and
  \<open>target_vectors_list\<close>. A candidate that \<open>index\<close> does not find is skipped.
  \<^verbatim>\<open>self.vectors[idx]\<close> raises \<open>TypeError\<close> on \<open>None\<close> and \<open>IndexError\<close> out of range.
\<close>

fun resolve_targets ::
  "Chunk list \<Rightarrow> real list list option \<Rightarrow> Chunk list \<Rightarrow> error + (nat list \<times> real list list)" where
  "resolve_targets cs vs [] = Inr ([], [])"
| "resolve_targets cs vs (t_chunk # rest) =
     (case index_of cs t_chunk of
        None \<Rightarrow> resolve_targets cs vs rest
      | Some idx \<Rightarrow>
          (case vs of
             None \<Rightarrow> Inl TypeError
           | Some m \<Rightarrow>
               if idx < length m then
                 (case resolve_targets cs vs rest of
                    Inl e \<Rightarrow> Inl e
                  | Inr (target_indices, target_vectors_list) \<Rightarrow>
                      Inr (idx # target_indices, m ! idx # target_vectors_list))
               else Inl IndexError))"

text \<open>
  \<^verbatim>\<open>min(overlap * 0.05, 0.5)\<close>, where \<open>overlap\<close> counts the query tokens that occur in the
  lower-cased content. \<open>query_tokens\<close> is the token set, as a list without duplicates.
\<close>

definition keyword_score :: "string list \<Rightarrow> Chunk \<Rightarrow> real" where
  "keyword_score query_tokens chunk =
     (let content_lower = lower (content chunk);
          overlap = length (filter (\<lambda>token. contains token content_lower) query_tokens)
      in min (real overlap * (5 / 100)) (5 / 10))"

text \<open>
  The fusion loop: \<^verbatim>\<open>for i, score in enumerate(vector_scores)\<close> reads
  \<^verbatim>\<open>target_chunks[i]\<close>.
\<close>

definition fuse_scores :: "string list \<Rightarrow> Chunk list \<Rightarrow> real list \<Rightarrow> real list" where
  "fuse_scores query_tokens target_chunks vector_scores =
     map (\<lambda>(i, score). score + keyword_score query_tokens (target_chunks ! i))
       (zip [0..<length vector_scores] vector_scores)"

text \<open>
  \<^verbatim>\<open>ChunkRetriever.search\<close>. The result is the returned pair or the exception, together
  with the texts handed to the embedder, in call order.
\<close>

definition ChunkRetriever_search ::
  "embedder \<Rightarrow> argsorter \<Rightarrow> ChunkRetriever \<Rightarrow> string \<Rightarrow> int \<Rightarrow> Chunk list option
     \<Rightarrow> (error + Chunk list \<times> real list) \<times> string list" where
  "ChunkRetriever_search emb argsort self query top_k candidate_chunks =
     (let query_vec = normalize (emb query);
          query_tokens = remdups (split (lower query));
          target_chunks = (case candidate_chunks of Some cs \<Rightarrow> cs | None \<Rightarrow> chunks self)
      in (if target_chunks = [] then Inr ([], [])
          else (case resolve_targets (chunks self) (vectors self) target_chunks of
            Inl e \<Rightarrow> Inl e
          | Inr (target_indices, target_vectors_list) \<Rightarrow>
              if target_vectors_list = [] then Inr ([], [])
              else (case np_stack target_vectors_list of
                Inl e \<Rightarrow> Inl e
              | Inr target_vectors \<Rightarrow>
                  (case np_dot target_vectors query_vec of
                     Inl e \<Rightarrow> Inl e
                   | Inr vector_scores \<Rightarrow>
                       let final_scores = fuse_scores query_tokens target_chunks vector_scores;
                           top = top_indices argsort top_k final_scores
                       in Inr (map (\<lambda>i. target_chunks ! i) top,
                               map (\<lambda>i. final_scores ! i) top)))),
          [query]))"

section \<open>Question/answer retrieval (\<^verbatim>\<open>retriever.py\<close>, \<^verbatim>\<open>QARetriever\<close>)\<close>

record QARetriever =
  qa_items :: "QAItem list"
  qa_vectors :: "real list list option"

text \<open>
  \<^verbatim>\<open>_load_qa_dataset\<close> on the parsed \<^verbatim>\<open>qa_pairs\<close>; \<open>None\<close> is the missing or malformed
  file, which leaves the index empty.
\<close>

definition load_qa_dataset :: "embedder \<Rightarrow> (string \<rightharpoonup> string) list option \<Rightarrow> error + QARetriever" where
  "load_qa_dataset emb qa_pairs =
     (case qa_pairs of
        None \<Rightarrow> Inr \<lparr>qa_items = [], qa_vectors = None\<rparr>
      | Some pairs \<Rightarrow>
          let items = map (\<lambda>qa. \<lparr>question = (case qa ''question'' of None \<Rightarrow> [] | Some v \<Rightarrow> v),
                                 answer = (case qa ''answer'' of None \<Rightarrow> [] | Some v \<Rightarrow> v),
                                 product_name = (case qa ''product_name'' of
                                                   None \<Rightarrow> ''overall'' | Some v \<Rightarrow> v)\<rparr>) pairs;
              vectors_list = map (\<lambda>item. emb (question item)) items
          in if vectors_list = [] then Inr \<lparr>qa_items = items, qa_vectors = None\<rparr>
             else (case np_stack vectors_list of
               Inl e \<Rightarrow> Inl e
             | Inr m \<Rightarrow> Inr \<lparr>qa_items = items, qa_vectors = Some (map normalize m)\<rparr>))"

text \<open>\<^verbatim>\<open>qa.product_name if qa.product_name else "overall"\<close>\<close>

definition p_name :: "QAItem \<Rightarrow> string" where
  "p_name qa = (if product_name qa \<noteq> [] then product_name qa else ''overall'')"

text \<open>The filter loop over \<^verbatim>\<open>enumerate(self.qa_items)\<close>.\<close>

definition scope_indices :: "QAItem list \<Rightarrow> string \<Rightarrow> nat list" where
  "scope_indices items scope =
     filter (\<lambda>i. upper (p_name (items ! i)) = upper scope \<or> p_name (items ! i) = ''overall'')
       [0..<length items]"

text \<open>
  Step 2 of the search: \<^verbatim>\<open>if not candidate_indices\<close>, all items are candidates.
\<close>

definition candidate_indices :: "QAItem list \<Rightarrow> string \<Rightarrow> nat list" where
  "candidate_indices items scope =
     (let found = scope_indices items scope
      in if found = [] then [0..<length items] else found)"

text \<open>
  The candidates of the scope \<open>overall\<close> in words: the items whose product name is
  empty or equals \<open>overall\<close> case-insensitively, and all items when there is none.
\<close>

definition overall_selection :: "QAItem list \<Rightarrow> nat list" where
  "overall_selection items =
     (let sel = filter (\<lambda>i. product_name (items ! i) = []
                            \<or> upper (product_name (items ! i)) = ''OVERALL'')
                  [0..<length items]
      in if sel = [] then [0..<length items] else sel)"

text \<open>\<^verbatim>\<open>self.vectors[candidate_indices]\<close>: \<open>IndexError\<close> when an index is out of range.\<close>

definition take_rows :: "real list list \<Rightarrow> nat list \<Rightarrow> error + real list list" where
  "take_rows m idxs =
     (if list_all (\<lambda>i. i < length m) idxs then Inr (map (\<lambda>i. m ! i) idxs) else Inl IndexError)"

definition QARetriever_search ::
  "embedder \<Rightarrow> argsorter \<Rightarrow> QARetriever \<Rightarrow> string \<Rightarrow> string option \<Rightarrow> int
     \<Rightarrow> (error + QAItem list \<times> real list) \<times> string list" where
  "QARetriever_search emb argsort self query product_name_arg top_k =
     (case qa_vectors self of
        None \<Rightarrow> (Inr ([], []), [])
      | Some m \<Rightarrow>
          if qa_items self = [] then (Inr ([], []), [])
          else
            let scope = (case product_name_arg of None \<Rightarrow> ''overall'' | Some p \<Rightarrow> p);
                cands = candidate_indices (qa_items self) scope;
                query_vec = normalize (emb query)
            in (case take_rows m cands of
                  Inl e \<Rightarrow> Inl e
                | Inr candidate_vectors \<Rightarrow>
                    (case np_dot candidate_vectors query_vec of
                       Inl e \<Rightarrow> Inl e
                     | Inr scores \<Rightarrow>
                         let sorted_indices = top_indices argsort top_k scores
                         in Inr (map (\<lambda>i. qa_items self ! (cands ! i)) sorted_indices,
                                 map (\<lambda>i. scores ! i) sorted_indices)),
                [query]))"

section \<open>Query processing (\<^verbatim>\<open>rag_engine.py\<close>)\<close>

text \<open>
  The parts of \<^verbatim>\<open>RAGSystem\<close> that \<^verbatim>\<open>_process_query\<close> reads: the retriever \<open>index\<close>,
  the chunk list \<open>self.chunks\<close> (here \<open>rag_chunks\<close>), the products that
  \<^verbatim>\<open>loader.get_products()\<close> returns, the question/answer retriever and the extractor.
\<close>

record RAGSystem =
  index :: ChunkRetriever
  rag_chunks :: "Chunk list"
  products :: "product list"
  qa_retriever :: QARetriever
  product_extractor :: ProductNameExtractor

text \<open>\<^verbatim>\<open>config.RETRIEVAL_TOP_K\<close>\<close>

definition RETRIEVAL_TOP_K :: int where
  "RETRIEVAL_TOP_K = 5"

text \<open>\<^verbatim>\<open>c.metadata.get("key") == "Full Specs"\<close>\<close>

definition is_full_specs :: "Chunk \<Rightarrow> bool" where
  "is_full_specs c = (metadata c ''key'' = Some ''Full Specs'')"

text \<open>
  The router is the \<^verbatim>\<open>if\<close>/\<^verbatim>\<open>elif\<close> chain of \<^verbatim>\<open>_process_query\<close>; \<open>route\<close> holds its
  guards in their order, \<^verbatim>\<open>elif extracted_product_id\<close> being the truth value of an optional
  string: \<open>None\<close> and the empty string are false.
\<close>

datatype Mode = Comparison | SpecificProduct string | ProductList | General

definition route :: "string \<Rightarrow> string option \<Rightarrow> Mode" where
  "route user_question extracted_product_id =
     (if is_comparison_query user_question then Comparison
      else if extracted_product_id \<noteq> None \<and> extracted_product_id \<noteq> Some []
        then SpecificProduct (case extracted_product_id of Some pid \<Rightarrow> pid | None \<Rightarrow> [])
      else if is_product_list_query user_question then ProductList
      else General)"

text \<open>The deterministic fact of the product-list branch.\<close>

definition product_list_fact :: "product list \<Rightarrow> string" where
  "product_list_fact all_products =
     (let product_names =
            map (\<lambda>p. case p ''product_name'' of None \<Rightarrow> ''Unknown'' | Some n \<Rightarrow> n) all_products;
          product_list_str = join '', '' product_names
      in ''FACT: The available products in the database are: '' @ product_list_str @ ''.'')"

text \<open>
  Step 1 of \<^verbatim>\<open>_process_query\<close>, the bodies of the four branches: the deterministic
  facts, the outcome of the chunk retrieval, and the texts handed to the embedder.
\<close>

definition retrieve_chunks ::
  "embedder \<Rightarrow> argsorter \<Rightarrow> RAGSystem \<Rightarrow> string \<Rightarrow> string option
     \<Rightarrow> string list \<times> (error + Chunk list \<times> real list) \<times> string list" where
  "retrieve_chunks emb argsort self user_question extracted_product_id =
     (case route user_question extracted_product_id of
        Comparison \<Rightarrow>
          (let chunk_results = filter is_full_specs (rag_chunks self);
               chunk_scores = replicate (length chunk_results) 1
           in ([], Inr (chunk_results, chunk_scores), []))
      | SpecificProduct pid \<Rightarrow>
          (let target_chunks_for_search =
                 filter (\<lambda>c. metadata c ''product_id'' = Some pid) (rag_chunks self);
               (res, calls) = ChunkRetriever_search emb argsort (index self) user_question
                                RETRIEVAL_TOP_K (Some target_chunks_for_search)
           in ([], res, calls))
      | ProductList \<Rightarrow>
          (let fact = product_list_fact (products self);
               (res, calls) = ChunkRetriever_search emb argsort (index self) user_question
                                RETRIEVAL_TOP_K (Some (rag_chunks self))
           in ([fact], res, calls))
      | General \<Rightarrow>
          (let (res, calls) = ChunkRetriever_search emb argsort (index self) user_question
                                RETRIEVAL_TOP_K (Some (rag_chunks self))
           in ([], res, calls)))"

text \<open>
  Step 2, the dynamic context management: the flag, assigned three times in the order of
  the code, and the loop over \<^verbatim>\<open>zip(chunk_results, chunk_scores)\<close>.
\<close>

definition include_full_specs :: "string list \<Rightarrow> real list \<Rightarrow> bool \<Rightarrow> bool" where
  "include_full_specs deterministic_facts chunk_scores is_comparison =
     (let inc = True;
          inc = (if deterministic_facts \<noteq> [] then False else inc);
          inc = (if chunk_scores \<noteq> [] \<and> hd chunk_scores > 12 / 10 then False else inc);
          inc = (if is_comparison then True else inc)
      in inc)"

definition filter_results :: "bool \<Rightarrow> Chunk list \<Rightarrow> real list \<Rightarrow> (Chunk \<times> real) list" where
  "filter_results inc chunk_results chunk_scores =
     filter (\<lambda>(c, s). \<not> (\<not> inc \<and> is_full_specs c)) (zip chunk_results chunk_scores)"

text \<open>What \<^verbatim>\<open>_process_query\<close> has retrieved when it assembles the context.\<close>

record retrieved =
  deterministic_facts :: "string list"
  final_chunk_results :: "Chunk list"
  final_chunk_scores :: "real list"
  qa_results :: "QAItem list"
  qa_scores :: "real list"

text \<open>
  \<^verbatim>\<open>_process_query\<close> up to the retrieval of the question/answer pairs. The formatting of
  the context string from these lists is not modelled.
\<close>

definition process_query ::
  "embedder \<Rightarrow> argsorter \<Rightarrow> RAGSystem \<Rightarrow> string \<Rightarrow> (error + retrieved) \<times> string list" where
  "process_query emb argsort self user_question =
     (case ProductNameExtractor_extract (product_extractor self) user_question of
        Inl e \<Rightarrow> (Inl e, [])
      | Inr extracted_product_id \<Rightarrow>
          (case retrieve_chunks emb argsort self user_question extracted_product_id of
             (facts, Inl e, calls) \<Rightarrow> (Inl e, calls)
           | (facts, Inr (chunk_results, chunk_scores), calls) \<Rightarrow>
               let inc = include_full_specs facts chunk_scores (is_comparison_query user_question);
                   kept = filter_results inc chunk_results chunk_scores;
                   qa_product_suffix =
                     (if extracted_product_id \<noteq> None \<and> extracted_product_id \<noteq> Some []
                      then suffix_of (case extracted_product_id of Some pid \<Rightarrow> pid | None \<Rightarrow> [])
                      else ''overall'')
               in (case QARetriever_search emb argsort (qa_retriever self) user_question
                          (Some qa_product_suffix) 1 of
                     (Inl e, qa_calls) \<Rightarrow> (Inl e, calls @ qa_calls)
                   | (Inr (qa_res, qa_sc), qa_calls) \<Rightarrow>
                       (Inr \<lparr>deterministic_facts = facts,
                             final_chunk_results = map fst kept,
                             final_chunk_scores = map snd kept,
                             qa_results = qa_res,
                             qa_scores = qa_sc\<rparr>,
                        calls @ qa_calls))))"

section \<open>Example data\<close>

text \<open>
  A two-product catalog, a small corpus and an embedder with two directions (texts that
  mention the GPU, and all others), used to run the model on concrete inputs.
\<close>

text \<open>
  An admissible \<open>argsort\<close>: the stable ascending sort of the indices, what NumPy gives
  with \<^verbatim>\<open>kind="stable"\<close> and what its generic sort does on short arrays. It is one
  of the functions that \<open>argsort_ok\<close> admits, used to run the model.
\<close>

definition stable_argsort :: argsorter where
  "stable_argsort scores = sort_key (\<lambda>i. scores ! i) [0..<length scores]"

definition demo_embed :: embedder where
  "demo_embed text = (if contains ''gpu'' (lower text) then [1, 0] else [0, 1])"

definition demo_catalog :: "product list" where
  "demo_catalog =
     [[''product_id'' \<mapsto> ''aorus-master-16-bxh'', ''product_name'' \<mapsto> ''AORUS MASTER 16 BXH''],
      [''product_id'' \<mapsto> ''aorus-master-16-byh'', ''product_name'' \<mapsto> ''AORUS MASTER 16 BYH'']]"

text \<open>The metadata dictionary that \<^verbatim>\<open>chunk_data\<close> attaches to a chunk.\<close>

definition spec_metadata :: "string \<Rightarrow> string \<Rightarrow> string \<Rightarrow> string \<Rightarrow> (string \<rightharpoonup> string)" where
  "spec_metadata pid pname category key =
     [''product_id'' \<mapsto> pid, ''product_name'' \<mapsto> pname, ''category'' \<mapsto> category, ''key'' \<mapsto> key]"

definition bxh_gpu :: Chunk where
  "bxh_gpu = \<lparr>content = ''Product: BXH GPU: RTX 5090'',
              metadata = spec_metadata ''aorus-master-16-bxh'' ''AORUS MASTER 16 BXH''
                           ''GPU'' ''Graphics''\<rparr>"

definition bxh_full :: Chunk where
  "bxh_full = \<lparr>content = ''Product: BXH Specification: Full Specs'',
               metadata = spec_metadata ''aorus-master-16-bxh'' ''AORUS MASTER 16 BXH''
                            ''Overall Specification'' ''Full Specs''\<rparr>"

definition byh_full :: Chunk where
  "byh_full = \<lparr>content = ''Product: BYH Specification: Full Specs'',
               metadata = spec_metadata ''aorus-master-16-byh'' ''AORUS MASTER 16 BYH''
                            ''Overall Specification'' ''Full Specs''\<rparr>"

text \<open>A chunk of a third product, which the corpus does not hold.\<close>

definition stray_chunk :: Chunk where
  "stray_chunk = \<lparr>content = ''Product: BZH Battery: 99Wh'',
                  metadata = spec_metadata ''aorus-master-16-bzh'' ''AORUS MASTER 16 BZH''
                               ''Battery'' ''Battery''\<rparr>"

definition demo_corpus :: "Chunk list" where
  "demo_corpus = [bxh_gpu, bxh_full, byh_full]"

text \<open>The index that \<^verbatim>\<open>add_chunks\<close> builds from the corpus.\<close>

definition demo_index :: ChunkRetriever where
  "demo_index = \<lparr>chunks = demo_corpus,
                 vectors = Some [normalize [1, 0], normalize [0, 1], normalize [0, 1]]\<rparr>"

text \<open>The cosine of two equal unit vectors under the \<open>1e-10\<close> guard.\<close>

definition unit_cos :: real where
  "unit_cos = (1 / (1 + 1 / 10 ^ 10)) ^ 2"

definition qa_battery :: QAItem where
  "qa_battery = \<lparr>question = ''battery life?'', answer = ''10 hours'', product_name = ''overall''\<rparr>"

definition qa_weight :: QAItem where
  "qa_weight = \<lparr>question = ''weight?'', answer = ''2.5 kg'', product_name = ''overall''\<rparr>"

definition qa_unnamed :: QAItem where
  "qa_unnamed = \<lparr>question = ''battery life?'', answer = ''10 hours'', product_name = []\<rparr>"

definition qa_gpu_bxh :: QAItem where
  "qa_gpu_bxh = \<lparr>question = ''gpu tdp?'', answer = ''175 W'', product_name = ''BXH''\<rparr>"

definition qa_battery_byh :: QAItem where
  "qa_battery_byh = \<lparr>question = ''battery life?'', answer = ''10 hours'', product_name = ''BYH''\<rparr>"

definition demo_qa :: QARetriever where
  "demo_qa = \<lparr>qa_items = [qa_battery, qa_weight],
              qa_vectors = Some [normalize [0, 1], normalize [0, 1]]\<rparr>"

definition empty_qa :: QARetriever where
  "empty_qa = \<lparr>qa_items = [], qa_vectors = None\<rparr>"

definition scoped_pairs :: "(string \<rightharpoonup> string) list" where
  "scoped_pairs =
     [[''question'' \<mapsto> ''gpu tdp?'', ''answer'' \<mapsto> ''175 W'', ''product_name'' \<mapsto> ''BXH''],
      [''question'' \<mapsto> ''battery life?'', ''answer'' \<mapsto> ''10 hours'', ''product_name'' \<mapsto> ''BYH'']]"

definition scoped_qa :: QARetriever where
  "scoped_qa = \<lparr>qa_items = [qa_gpu_bxh, qa_battery_byh],
                qa_vectors = Some [normalize [1, 0], normalize [0, 1]]\<rparr>"

definition unnamed_qa :: QARetriever where
  "unnamed_qa = \<lparr>qa_items = [qa_unnamed, qa_gpu_bxh],
                 qa_vectors = Some [normalize [0, 1], normalize [1, 0]]\<rparr>"

text \<open>
  An embedder with a third direction, for texts about the battery, and an index whose
  items all score differently against the query \<open>weight\<close>.
\<close>

definition graded_embed :: embedder where
  "graded_embed text =
     (if contains ''gpu'' (lower text) then [1, 0]
      else if contains ''battery'' (lower text) then [3 / 5, 4 / 5]
      else [0, 1])"

definition qa_capital :: QAItem where
  "qa_capital = \<lparr>question = ''gpu tdp?'', answer = ''175 W'', product_name = ''Overall''\<rparr>"

definition mixed_pairs :: "(string \<rightharpoonup> string) list" where
  "mixed_pairs =
     [ [''question'' \<mapsto> ''battery life?'', ''answer'' \<mapsto> ''10 hours'', ''product_name'' \<mapsto> []],
       [''question'' \<mapsto> ''weight?'', ''answer'' \<mapsto> ''2.5 kg'', ''product_name'' \<mapsto> ''overall''],
       [''question'' \<mapsto> ''gpu tdp?'', ''answer'' \<mapsto> ''175 W'', ''product_name'' \<mapsto> ''Overall''],
       [''question'' \<mapsto> ''gpu tdp?'', ''answer'' \<mapsto> ''175 W'', ''product_name'' \<mapsto> ''BXH''] ]"

definition mixed_qa :: QARetriever where
  "mixed_qa = \<lparr>qa_items = [qa_unnamed, qa_weight, qa_capital, qa_gpu_bxh],
               qa_vectors = Some [normalize [3 / 5, 4 / 5], normalize [0, 1], normalize [1, 0],
                                  normalize [1, 0]]\<rparr>"

definition demo_system :: RAGSystem where
  "demo_system = \<lparr>index = demo_index, rag_chunks = demo_corpus, products = demo_catalog,
                  qa_retriever = demo_qa,
                  product_extractor = ProductNameExtractor_init (Some demo_catalog)\<rparr>"

section \<open>Product extraction\<close>

lemma models_loop_catalog:
  "\<forall>p\<in>set cat. p ''product_id'' \<noteq> None \<Longrightarrow>
   models_loop (map (\<lambda>p. (p ''product_id'', p ''product_name'')) cat) qu
     = Inr (find (\<lambda>pid. contains (suffix_of pid) qu) (map (\<lambda>p. the (p ''product_id'')) cat))"
  by (induction cat) auto

text \<open>
  Claim C9. With a non-empty catalog whose entries all carry a product id, \<open>extract\<close>
  returns, for every query, the id of the first product in catalog order whose suffix (the
  last \<open>-\<close>-delimited segment of the id, upper-cased) occurs as a substring of the
  upper-cased query, and \<open>None\<close> when no suffix occurs. The match is plain containment:
  the loop of the code is \<open>find\<close> with that test. The hard-coded fallback list is not
  consulted, and nothing is raised.
\<close>

theorem extract_first_match:
  assumes "catalog \<noteq> []" and "\<forall>p\<in>set catalog. p ''product_id'' \<noteq> None"
  shows "ProductNameExtractor_extract (ProductNameExtractor_init (Some catalog)) query
           = Inr (first_suffix_match (map (\<lambda>p. the (p ''product_id'')) catalog) query)"
  using assms
  by (simp add: ProductNameExtractor_extract_def ProductNameExtractor_init_def Let_def
      first_suffix_match_def models_loop_catalog split: option.splits)

lemma demo_catalog_ids:
  "map (\<lambda>p. the (p ''product_id'')) demo_catalog = [''aorus-master-16-bxh'', ''aorus-master-16-byh'']"
  by (simp add: demo_catalog_def)

lemma demo_catalog_match:
  "first_suffix_match [''aorus-master-16-bxh'', ''aorus-master-16-byh''] ''is the byh heavy''
     = Some ''aorus-master-16-byh''"
  by code_simp

text \<open>
  The two-product catalog and a query that names the second product.
\<close>

theorem extract_first_match_witness:
  "demo_catalog \<noteq> []
   \<and> map (\<lambda>p. p ''product_id'') demo_catalog
       = [Some ''aorus-master-16-bxh'', Some ''aorus-master-16-byh'']
   \<and> ProductNameExtractor_extract (ProductNameExtractor_init (Some demo_catalog)) ''is the byh heavy''
     = Inr (Some ''aorus-master-16-byh'')"
proof -
  have ne: "demo_catalog \<noteq> []" by (simp add: demo_catalog_def)
  have ids: "\<forall>p\<in>set demo_catalog. p ''product_id'' \<noteq> None" by (simp add: demo_catalog_def)
  show ?thesis
    using extract_first_match [OF ne ids, of "''is the byh heavy''"] ne
    by (simp add: demo_catalog_ids demo_catalog_match) (simp add: demo_catalog_def)
qed

section \<open>Retrieval and routing\<close>

lemma index_of_notin: "t \<notin> set cs \<Longrightarrow> index_of cs t = None"
  by (induction cs) auto

lemma resolve_targets_none:
  "\<forall>t\<in>set ts. t \<notin> set cs \<Longrightarrow> resolve_targets cs vs ts = Inr ([], [])"
  by (induction ts) (simp_all add: index_of_notin)

text \<open>
  Claim C8. Empty results are not errors. When no chunk of the candidate list (the corpus
  itself when no list is given) resolves against the corpus, which covers the empty
  candidate list and the empty corpus, \<^verbatim>\<open>ChunkRetriever.search\<close> returns two empty
  sequences. When the question/answer index holds no item, \<^verbatim>\<open>QARetriever.search\<close>
  returns two empty sequences and its embedder log is empty: the query is not embedded.
\<close>

theorem empty_results_not_errors:
  "((\<forall>t\<in>set (case cands of Some cs \<Rightarrow> cs | None \<Rightarrow> chunks idx). t \<notin> set (chunks idx))
      \<longrightarrow> fst (ChunkRetriever_search emb argsort idx q k cands) = Inr ([], []))
   \<and> (qa_items qa = [] \<longrightarrow> QARetriever_search emb argsort qa q' scope k' = (Inr ([], []), []))"
  by (auto simp: ChunkRetriever_search_def QARetriever_search_def Let_def resolve_targets_none
      split: option.splits)

lemma search_lengths:
  "ChunkRetriever_search emb argsort idx q k cands = (Inr (rs, ss), calls) \<Longrightarrow> length rs = length ss"
  by (auto simp: ChunkRetriever_search_def Let_def split: if_splits sum.splits prod.splits)

lemma search_calls: "ChunkRetriever_search emb argsort idx q k cands = (r, calls) \<Longrightarrow> calls = [q]"
  by (auto simp: ChunkRetriever_search_def Let_def)

lemma retrieve_chunks_lengths:
  "retrieve_chunks emb argsort sys q ext = (facts, Inr (rs, ss), calls) \<Longrightarrow> length rs = length ss"
  by (auto simp: retrieve_chunks_def Let_def split: Mode.splits prod.splits dest: search_lengths)

lemma retrieve_chunks_facts:
  "retrieve_chunks emb argsort sys q ext = (facts, r, calls) \<Longrightarrow>
   (facts \<noteq> [] \<longleftrightarrow> route q ext = ProductList)
   \<and> calls = (if route q ext = Comparison then [] else [q])"
  by (auto simp: retrieve_chunks_def Let_def split: Mode.splits prod.splits dest: search_calls)


lemma filter_results_True: "map fst (filter_results True rs ss) = map fst (zip rs ss)"
  by (simp add: filter_results_def)

lemma filter_results_False:
  "length rs = length ss \<Longrightarrow>
   map fst (filter_results False rs ss) = filter (\<lambda>c. \<not> is_full_specs c) rs"
  by (induction rs ss rule: list_induct2) (auto simp: filter_results_def)

lemma filter_results_fst:
  "length rs = length ss \<Longrightarrow>
   map fst (filter_results inc rs ss) = (if inc then rs else filter (\<lambda>c. \<not> is_full_specs c) rs)"
  by (cases inc) (simp_all add: filter_results_True filter_results_False)

lemma include_full_specs_iff:
  "include_full_specs facts ss cmp \<longleftrightarrow> cmp \<or> (facts = [] \<and> \<not> (ss \<noteq> [] \<and> hd ss > 12 / 10))"
  by (auto simp: include_full_specs_def Let_def)

lemma process_query_results:
  assumes "ProductNameExtractor_extract (product_extractor sys) q = Inr ext"
      and "retrieve_chunks emb argsort sys q ext = (facts, Inr (rs, ss), calls)"
      and "fst (process_query emb argsort sys q) = Inr out"
  shows "final_chunk_results out
           = map fst (filter_results (include_full_specs facts ss (is_comparison_query q)) rs ss)"
  using assms
  by (auto simp: process_query_def Let_def split: prod.splits sum.splits)

text \<open>
  Claim C2. The context-assembly step of \<^verbatim>\<open>_process_query\<close>. When the extractor and
  the chunk retrieval have returned, the final chunk list is the ranked list without its
  Full-Specs chunks exactly when the query is not a comparison and either a deterministic
  fact was injected or the top-ranked score exceeds \<open>1.2\<close>; otherwise, and always in
  comparison mode, it is the ranked list itself. A fact is injected exactly in ProductList
  mode. The final list is a subsequence of the ranked list, so rank order is kept, and the
  embedder log of the chunk step holds the query once (not at all in comparison mode):
  the search is not run again.
\<close>

theorem full_specs_policy:
  assumes ext: "ProductNameExtractor_extract (product_extractor sys) q = Inr ext"
      and ret: "retrieve_chunks emb argsort sys q ext = (facts, Inr (rs, ss), calls)"
      and out: "fst (process_query emb argsort sys q) = Inr out"
  shows "final_chunk_results out
           = (if \<not> is_comparison_query q \<and> (facts \<noteq> [] \<or> (ss \<noteq> [] \<and> hd ss > 12 / 10))
              then filter (\<lambda>c. \<not> is_full_specs c) rs else rs)
       \<and> (facts \<noteq> [] \<longleftrightarrow> route q ext = ProductList)
       \<and> subseq (final_chunk_results out) rs
       \<and> calls = (if is_comparison_query q then [] else [q])"
proof -
  have len: "length rs = length ss" using ret by (rule retrieve_chunks_lengths)
  have res: "final_chunk_results out
           = (if \<not> is_comparison_query q \<and> (facts \<noteq> [] \<or> (ss \<noteq> [] \<and> hd ss > 12 / 10))
              then filter (\<lambda>c. \<not> is_full_specs c) rs else rs)"
    using process_query_results [OF ext ret out] len
    by (auto simp: filter_results_fst include_full_specs_iff)
  have sub: "subseq (final_chunk_results out) rs"
    unfolding res by simp
  have cmp: "route q ext = Comparison \<longleftrightarrow> is_comparison_query q"
    by (simp add: route_def)
  show ?thesis
    using res sub retrieve_chunks_facts [OF ret] cmp by simp
qed

lemma take_prefix_mono: "n \<le> m \<Longrightarrow> prefix (take n xs) (take m xs)"
proof -
  assume "n \<le> m"
  then have "take n xs = take n (take m xs)" by (simp add: min_def)
  then show ?thesis by (metis take_is_prefix)
qed

lemma slice_to_prefix: "0 \<le> n \<Longrightarrow> prefix (slice_to n xs) (slice_to (n + 1) xs)"
  by (simp add: slice_to_def take_prefix_mono)

lemma top_indices_prefix: "0 \<le> n \<Longrightarrow> prefix (top_indices argsort n s) (top_indices argsort (n + 1) s)"
  by (simp add: top_indices_def slice_to_prefix)

lemma map_prefix: "prefix xs ys \<Longrightarrow> prefix (map f xs) (map f ys)"
  by (auto simp: prefix_def)

text \<open>
  Claim C6. Top-k prefix monotonicity. For every index, query and candidate list and every
  \<open>n \<ge> 0\<close>, both searches with \<open>top_k = n\<close> return a prefix of what they return with
  \<open>top_k = n + 1\<close>, chunks and scores alike; when one call raises, so does the other,
  with the same exception.
\<close>

theorem top_k_prefix:
  assumes "0 \<le> n"
  shows "(case fst (ChunkRetriever_search emb argsort idx q n cands) of
            Inl e \<Rightarrow> fst (ChunkRetriever_search emb argsort idx q (n + 1) cands) = Inl e
          | Inr (rs, ss) \<Rightarrow>
              (\<exists>rs' ss'. fst (ChunkRetriever_search emb argsort idx q (n + 1) cands) = Inr (rs', ss')
                 \<and> prefix rs rs' \<and> prefix ss ss'))
       \<and> (case fst (QARetriever_search emb argsort qa q' scope n) of
            Inl e \<Rightarrow> fst (QARetriever_search emb argsort qa q' scope (n + 1)) = Inl e
          | Inr (rs, ss) \<Rightarrow>
              (\<exists>rs' ss'. fst (QARetriever_search emb argsort qa q' scope (n + 1)) = Inr (rs', ss')
                 \<and> prefix rs rs' \<and> prefix ss ss'))"
proof
  show "case fst (ChunkRetriever_search emb argsort idx q n cands) of
            Inl e \<Rightarrow> fst (ChunkRetriever_search emb argsort idx q (n + 1) cands) = Inl e
          | Inr (rs, ss) \<Rightarrow>
              (\<exists>rs' ss'. fst (ChunkRetriever_search emb argsort idx q (n + 1) cands) = Inr (rs', ss')
                 \<and> prefix rs rs' \<and> prefix ss ss')"
    using assms
    by (simp add: ChunkRetriever_search_def Let_def map_prefix top_indices_prefix
        split: sum.splits prod.splits option.splits)
  show "case fst (QARetriever_search emb argsort qa q' scope n) of
            Inl e \<Rightarrow> fst (QARetriever_search emb argsort qa q' scope (n + 1)) = Inl e
          | Inr (rs, ss) \<Rightarrow>
              (\<exists>rs' ss'. fst (QARetriever_search emb argsort qa q' scope (n + 1)) = Inr (rs', ss')
                 \<and> prefix rs rs' \<and> prefix ss ss')"
    using assms
    by (simp add: QARetriever_search_def Let_def map_prefix top_indices_prefix
        split: sum.splits prod.splits option.splits)
qed

lemma keyword_loop_iff:
  "keyword_loop kws ql \<longleftrightarrow> (\<exists>kw\<in>set kws. contains (lower kw) ql)"
  by (induction kws) auto

text \<open>
  Claim C3. For every query that \<^verbatim>\<open>is_comparison_query\<close> accepts, whatever the
  extractor returned, the chunk-retrieval step returns the chunks of the corpus whose
  metadata key is \<open>Full Specs\<close>, in corpus order, each with the score \<open>1\<close>, injects no
  fact, and its embedder log is empty: \<^verbatim>\<open>ChunkRetriever.search\<close> is not called.
\<close>

theorem comparison_bypass:
  assumes "is_comparison_query q"
  shows "retrieve_chunks emb argsort sys q extracted
           = ([], Inr (filter is_full_specs (rag_chunks sys),
                       replicate (length (filter is_full_specs (rag_chunks sys))) 1), [])"
  using assms by (simp add: retrieve_chunks_def route_def Let_def)

text \<open>
  Claim C4. The router classifies in the fixed order Comparison, SpecificProduct,
  ProductList, General, and the first match wins. A query is a comparison exactly when it
  contains a comparison keyword, case-insensitively, and then the mode is Comparison
  whatever was extracted. SpecificProduct needs a non-comparison query and a non-empty
  extracted id, whether or not the query also asks for the product list; ProductList and
  General need that neither of the first two matched. So a query with a comparison keyword
  and an extracted product id is Comparison and not SpecificProduct: the retrieval step
  returns the Full-Specs chunks, where SpecificProduct searches the chunks of the product.
\<close>

theorem mode_priority:
  "(is_comparison_query q \<longleftrightarrow> (\<exists>kw\<in>set COMPARISON_KEYWORDS. contains (lower kw) (lower q)))
   \<and> (route q ext = Comparison \<longleftrightarrow> is_comparison_query q)
   \<and> (route q ext = SpecificProduct pid \<longleftrightarrow>
         \<not> is_comparison_query q \<and> ext = Some pid \<and> pid \<noteq> [])
   \<and> (route q ext = ProductList \<longleftrightarrow>
         \<not> is_comparison_query q \<and> (ext = None \<or> ext = Some []) \<and> is_product_list_query q)
   \<and> (route q ext = General \<longleftrightarrow>
         \<not> is_comparison_query q \<and> (ext = None \<or> ext = Some []) \<and> \<not> is_product_list_query q)
   \<and> (is_comparison_query q \<and> ProductNameExtractor_extract ex q = Inr (Some pid) \<longrightarrow>
         route q (Some pid) = Comparison \<and> route q (Some pid) \<noteq> SpecificProduct pid
         \<and> retrieve_chunks emb argsort sys q (Some pid)
             = ([], Inr (filter is_full_specs (rag_chunks sys),
                         replicate (length (filter is_full_specs (rag_chunks sys))) 1), []))
   \<and> (route q ext = SpecificProduct pid \<longrightarrow>
         retrieve_chunks emb argsort sys q ext
           = ([], ChunkRetriever_search emb argsort (index sys) q RETRIEVAL_TOP_K
                    (Some (filter (\<lambda>c. metadata c ''product_id'' = Some pid) (rag_chunks sys)))))"
proof -
  have k: "is_comparison_query q \<longleftrightarrow> (\<exists>kw\<in>set COMPARISON_KEYWORDS. contains (lower kw) (lower q))"
    by (simp add: is_comparison_query_def keyword_loop_iff)
  have r: "route q ext = Comparison \<longleftrightarrow> is_comparison_query q"
    "route q ext = SpecificProduct pid \<longleftrightarrow> \<not> is_comparison_query q \<and> ext = Some pid \<and> pid \<noteq> []"
    "route q ext = ProductList \<longleftrightarrow>
       \<not> is_comparison_query q \<and> (ext = None \<or> ext = Some []) \<and> is_product_list_query q"
    "route q ext = General \<longleftrightarrow>
       \<not> is_comparison_query q \<and> (ext = None \<or> ext = Some []) \<and> \<not> is_product_list_query q"
    by (auto simp: route_def split: option.splits)
  have c: "is_comparison_query q \<longrightarrow>
         route q (Some pid) = Comparison \<and> route q (Some pid) \<noteq> SpecificProduct pid
         \<and> retrieve_chunks emb argsort sys q (Some pid)
             = ([], Inr (filter is_full_specs (rag_chunks sys),
                         replicate (length (filter is_full_specs (rag_chunks sys))) 1), [])"
    by (simp add: retrieve_chunks_def route_def Let_def)
  have s: "route q ext = SpecificProduct pid \<longrightarrow>
         retrieve_chunks emb argsort sys q ext
           = ([], ChunkRetriever_search emb argsort (index sys) q RETRIEVAL_TOP_K
                    (Some (filter (\<lambda>c. metadata c ''product_id'' = Some pid) (rag_chunks sys))))"
    by (simp add: retrieve_chunks_def Let_def split: prod.splits)
  show ?thesis using k r c s by blast
qed

section \<open>Ranking\<close>

text \<open>What \<open>argsort_ok\<close> gives for the ranking \<^verbatim>\<open>np.argsort(scores)[::-1][:top_k]\<close>.\<close>

lemma argsort_length: "argsort_ok f \<Longrightarrow> length (f s) = length s"
proof -
  assume ok: "argsort_ok f"
  then have "distinct (f s)" "set (f s) = {0..<length s}" by (simp_all add: argsort_ok_def)
  then have "length (f s) = card {0..<length s}" by (metis distinct_card)
  then show ?thesis by simp
qed


lemma top_indices_bound: "argsort_ok f \<Longrightarrow> i \<in> set (top_indices f k s) \<Longrightarrow> i < length s"
  by (auto simp: top_indices_def slice_to_def argsort_ok_def dest!: in_set_takeD split: if_splits)

lemma length_top_indices:
  "argsort_ok f \<Longrightarrow> 0 \<le> k \<Longrightarrow> length (top_indices f k s) = min (nat k) (length s)"
  by (simp add: top_indices_def slice_to_def argsort_length)


text \<open>A single score has one ranking, whatever the \<open>argsort\<close>.\<close>

lemma top_indices_single:
  assumes "argsort_ok f" and "0 < k"
  shows "top_indices f k [x] = [0]"
proof -
  from assms(1) have l: "length (f [x]) = 1" by (simp add: argsort_length)
  from assms(1) have "set (f [x]) = {0..<length [x]}" by (simp add: argsort_ok_def)
  then have st: "set (f [x]) = {0}" by simp
  from l obtain y where y: "f [x] = [y]"
    by (cases "f [x]") auto
  with st have "f [x] = [0]" by simp
  with assms(2) show ?thesis by (simp add: top_indices_def slice_to_def)
qed

text \<open>The stable sort is admissible, and with it equal scores come out in reverse order.\<close>

lemma stable_argsort_ok: "argsort_ok stable_argsort"
  by (simp add: argsort_ok_def stable_argsort_def sorted_sort_key atLeast_upt)

lemma insort_key_lex:
  fixes f :: "nat \<Rightarrow> real"
  assumes "sorted_wrt (\<lambda>a b. f a < f b \<or> (f a = f b \<and> a < b)) l" and "\<forall>y\<in>set l. x < y"
  shows "sorted_wrt (\<lambda>a b. f a < f b \<or> (f a = f b \<and> a < b)) (insort_key f x l)"
  using assms by (induction l) (auto simp: set_insort_key)

lemma sort_key_lex:
  fixes f :: "nat \<Rightarrow> real"
  shows "sorted_wrt (<) xs \<Longrightarrow>
         sorted_wrt (\<lambda>a b. f a < f b \<or> (f a = f b \<and> a < b)) (sort_key f xs)"
  by (induction xs) (auto intro!: insort_key_lex)

lemma stable_argsort_lex:
  "sorted_wrt (\<lambda>a b. s ! a < s ! b \<or> (s ! a = s ! b \<and> a < b)) (stable_argsort s)"
  unfolding stable_argsort_def by (rule sort_key_lex) simp

lemma stable_ties_reversed:
  "sorted_wrt (\<lambda>a b. s ! b < s ! a \<or> (s ! a = s ! b \<and> b < a)) (top_indices stable_argsort k s)"
proof -
  have "sorted_wrt (\<lambda>a b. s ! b < s ! a \<or> (s ! b = s ! a \<and> b < a)) (rev (stable_argsort s))"
    using stable_argsort_lex [of s] by (simp add: sorted_wrt_rev)
  then have "sorted_wrt (\<lambda>a b. s ! b < s ! a \<or> (s ! a = s ! b \<and> b < a)) (rev (stable_argsort s))"
    by (rule sorted_wrt_mono_rel [rotated]) auto
  then show ?thesis
    by (simp add: top_indices_def slice_to_def sorted_wrt_take)
qed


lemma length_fuse_scores [simp]: "length (fuse_scores toks ts vs) = length vs"
  by (simp add: fuse_scores_def)

lemma search_Inr:
  assumes "fst (ChunkRetriever_search emb argsort idx q k cands) = Inr (rs, ss)" and "rs \<noteq> []"
  shows "\<exists>is rows. resolve_targets (chunks idx) (vectors idx)
                      (case cands of Some cs \<Rightarrow> cs | None \<Rightarrow> chunks idx) = Inr (is, rows)
           \<and> rs = map (\<lambda>i. (case cands of Some cs \<Rightarrow> cs | None \<Rightarrow> chunks idx) ! i)
                   (top_indices argsort k (fuse_scores (remdups (split (lower q)))
                      (case cands of Some cs \<Rightarrow> cs | None \<Rightarrow> chunks idx)
                      (map (\<lambda>r. dot r (normalize (emb q))) rows)))
           \<and> ss = map (\<lambda>i. fuse_scores (remdups (split (lower q)))
                      (case cands of Some cs \<Rightarrow> cs | None \<Rightarrow> chunks idx)
                      (map (\<lambda>r. dot r (normalize (emb q))) rows) ! i)
                   (top_indices argsort k (fuse_scores (remdups (split (lower q)))
                      (case cands of Some cs \<Rightarrow> cs | None \<Rightarrow> chunks idx)
                      (map (\<lambda>r. dot r (normalize (emb q))) rows)))"
  using assms
  by (auto simp: ChunkRetriever_search_def Let_def np_stack_def np_dot_def
      split: if_splits sum.splits prod.splits)





section \<open>Question/answer scope\<close>

lemma length_normalize [simp]: "length (normalize v) = length v"
  by (simp add: normalize_def)

lemma np_stack_Inr: "np_stack rows = Inr m \<Longrightarrow> m = rows \<and> rows \<noteq> []"
  by (auto simp: np_stack_def split: if_splits)

lemma load_qa_items:
  assumes "load_qa_dataset emb src = Inr qa" and "qa_items qa \<noteq> []"
  shows "qa_vectors qa = Some (map (\<lambda>item. normalize (emb (question item))) (qa_items qa))"
  using assms
  by (auto simp: load_qa_dataset_def Let_def comp_def
      split: option.splits if_splits sum.splits dest!: np_stack_Inr)

lemma scope_indices_empty:
  "\<forall>item\<in>set items. upper (p_name item) \<noteq> upper sc \<and> p_name item \<noteq> ''overall'' \<Longrightarrow>
   scope_indices items sc = []"
  by (auto simp: scope_indices_def filter_empty_conv)

lemma take_rows_all: "take_rows m [0..<length m] = Inr m"
  by (simp add: take_rows_def list_all_iff map_nth)

text \<open>
  Claim C7, as amended. For a loaded, non-empty index, an embedder of fixed dimension and
  an \<open>argsort\<close> that NumPy's contract admits:
  if no item matches the scope case-insensitively and no item is an \<open>overall\<close> item,
  where an item with an empty product name counts as \<open>overall\<close> (as \<open>p_name\<close> reads
  it), then the search ranks the entire item set by cosine similarity and returns the
  \<open>top_k\<close> best, \<open>min(top_k, number of items)\<close> many for \<open>top_k \<ge> 0\<close>.
\<close>

theorem qa_scope_fallback:
  assumes load: "load_qa_dataset emb src = Inr qa" and ne: "qa_items qa \<noteq> []"
      and dim: "\<forall>s. length (emb s) = D" and ok: "argsort_ok argsort"
      and nomatch: "\<forall>item\<in>set (qa_items qa).
                      upper (p_name item) \<noteq> upper (case scope of None \<Rightarrow> ''overall'' | Some p \<Rightarrow> p)
                      \<and> p_name item \<noteq> ''overall''"
  shows "fst (QARetriever_search emb argsort qa q scope k)
           = Inr (map (\<lambda>i. qa_items qa ! i)
                    (top_indices argsort k (map (\<lambda>item. dot (normalize (emb (question item))) (normalize (emb q)))
                                      (qa_items qa))),
                  map (\<lambda>i. map (\<lambda>item. dot (normalize (emb (question item))) (normalize (emb q)))
                              (qa_items qa) ! i)
                    (top_indices argsort k (map (\<lambda>item. dot (normalize (emb (question item))) (normalize (emb q)))
                                      (qa_items qa))))
       \<and> (0 \<le> k \<longrightarrow>
            length (fst (projr (fst (QARetriever_search emb argsort qa q scope k))))
              = min (nat k) (length (qa_items qa)))"
proof -
  let ?sc = "case scope of None \<Rightarrow> ''overall'' | Some p \<Rightarrow> p"
  let ?m = "map (\<lambda>item. normalize (emb (question item))) (qa_items qa)"
  have v: "qa_vectors qa = Some ?m" using load ne by (rule load_qa_items)
  have c: "candidate_indices (qa_items qa) ?sc = [0..<length ?m]"
    using scope_indices_empty [OF nomatch] by (simp add: candidate_indices_def)
  have d: "np_dot ?m (normalize (emb q))
             = Inr (map (\<lambda>item. dot (normalize (emb (question item))) (normalize (emb q))) (qa_items qa))"
    using dim by (simp add: np_dot_def list_all_iff comp_def)
  have t: "take_rows ?m [0..<length ?m] = Inr ?m" by (rule take_rows_all)
  have n: "\<And>i. i < length (qa_items qa) \<Longrightarrow> [0..<length (qa_items qa)] ! i = i" by simp
  have eq: "fst (QARetriever_search emb argsort qa q scope k)
           = Inr (map (\<lambda>i. qa_items qa ! i)
                    (top_indices argsort k (map (\<lambda>item. dot (normalize (emb (question item))) (normalize (emb q)))
                                      (qa_items qa))),
                  map (\<lambda>i. map (\<lambda>item. dot (normalize (emb (question item))) (normalize (emb q)))
                              (qa_items qa) ! i)
                    (top_indices argsort k (map (\<lambda>item. dot (normalize (emb (question item))) (normalize (emb q)))
                                      (qa_items qa))))"
    using ne v c d t
    by (auto simp: QARetriever_search_def Let_def dest!: top_indices_bound [OF ok])
  show ?thesis
    unfolding eq by (simp add: length_top_indices [OF ok])
qed

lemma upper_overall: "upper ''overall'' = ''OVERALL''"
  by code_simp

lemma overall_candidates:
  "candidate_indices (qa_items qa) ''overall'' = overall_selection (qa_items qa)"
proof -
  have "\<And>x. (upper (p_name x) = upper ''overall'' \<or> p_name x = ''overall'')
           = (product_name x = [] \<or> upper (product_name x) = ''OVERALL'')"
    using upper_overall by (auto simp: p_name_def)
  then show ?thesis
    by (simp add: candidate_indices_def scope_indices_def overall_selection_def)
qed

lemma overall_selection_bound: "i \<in> set (overall_selection items) \<Longrightarrow> i < length items"
  by (auto simp: overall_selection_def Let_def split: if_splits)

text \<open>
  Claim C10, as amended. A search with the scope \<open>None\<close> returns what the search with
  the scope \<open>overall\<close> returns, embedder log included. For a loaded, non-empty index and
  an embedder of fixed dimension, what it ranks is \<open>overall_selection\<close>: exactly the
  items whose product name is empty or equals \<open>overall\<close> case-insensitively, all items
  when there is none; the result is the ranking of these items by their cosine, cut at
  \<open>top_k\<close>.
\<close>

theorem none_scope_is_overall:
  "QARetriever_search emb argsort qa q None k = QARetriever_search emb argsort qa q (Some ''overall'') k
   \<and> (load_qa_dataset emb src = Inr qa \<and> qa_items qa \<noteq> [] \<and> (\<forall>s. length (emb s) = D) \<longrightarrow>
        fst (QARetriever_search emb argsort qa q None k)
          = Inr (map (\<lambda>i. qa_items qa ! (overall_selection (qa_items qa) ! i))
                   (top_indices argsort k
                      (map (\<lambda>i. dot (normalize (emb (question (qa_items qa ! i)))) (normalize (emb q)))
                         (overall_selection (qa_items qa)))),
                 map (\<lambda>i. map (\<lambda>i. dot (normalize (emb (question (qa_items qa ! i)))) (normalize (emb q)))
                         (overall_selection (qa_items qa)) ! i)
                   (top_indices argsort k
                      (map (\<lambda>i. dot (normalize (emb (question (qa_items qa ! i)))) (normalize (emb q)))
                         (overall_selection (qa_items qa))))))"
proof (intro conjI impI)
  show "QARetriever_search emb argsort qa q None k = QARetriever_search emb argsort qa q (Some ''overall'') k"
    by (simp add: QARetriever_search_def Let_def split: option.splits)
next
  assume h: "load_qa_dataset emb src = Inr qa \<and> qa_items qa \<noteq> [] \<and> (\<forall>s. length (emb s) = D)"
  let ?m = "map (\<lambda>item. normalize (emb (question item))) (qa_items qa)"
  let ?cs = "overall_selection (qa_items qa)"
  from h have ne: "qa_items qa \<noteq> []" and dim: "\<forall>s. length (emb s) = D" by auto
  have v: "qa_vectors qa = Some ?m" using h by (auto intro: load_qa_items)
  have rows: "map (\<lambda>i. ?m ! i) ?cs = map (\<lambda>i. normalize (emb (question (qa_items qa ! i)))) ?cs"
    by (auto dest: overall_selection_bound)
  have t: "take_rows ?m ?cs = Inr (map (\<lambda>i. normalize (emb (question (qa_items qa ! i)))) ?cs)"
    using rows by (auto simp: take_rows_def list_all_iff dest: overall_selection_bound)
  have d: "np_dot (map (\<lambda>i. normalize (emb (question (qa_items qa ! i)))) ?cs) (normalize (emb q))
             = Inr (map (\<lambda>i. dot (normalize (emb (question (qa_items qa ! i)))) (normalize (emb q))) ?cs)"
    using dim by (simp add: np_dot_def list_all_iff comp_def)
  show "fst (QARetriever_search emb argsort qa q None k)
          = Inr (map (\<lambda>i. qa_items qa ! (?cs ! i))
                   (top_indices argsort k
                      (map (\<lambda>i. dot (normalize (emb (question (qa_items qa ! i)))) (normalize (emb q))) ?cs)),
                 map (\<lambda>i. map (\<lambda>i. dot (normalize (emb (question (qa_items qa ! i)))) (normalize (emb q))) ?cs ! i)
                   (top_indices argsort k
                      (map (\<lambda>i. dot (normalize (emb (question (qa_items qa ! i)))) (normalize (emb q))) ?cs)))"
    using ne v t d by (simp add: QARetriever_search_def Let_def overall_candidates)
qed

section \<open>Hybrid score\<close>

lemma index_of_in: "t \<in> set cs \<Longrightarrow> \<exists>i. index_of cs t = Some i \<and> i < length cs \<and> cs ! i = t"
  by (induction cs) auto

lemma resolve_targets_aligned:
  assumes "\<forall>t\<in>set ts. t \<in> set cs" and "ts \<noteq> []"
      and "resolve_targets cs vs ts = Inr (is, rows)"
  shows "\<exists>m. vs = Some m \<and> rows = map (\<lambda>t. m ! the (index_of cs t)) ts"
  using assms
proof (induction ts arbitrary: "is" rows)
  case Nil
  then show ?case by simp
next
  case (Cons t ts)
  from Cons.prems(1) obtain i where i: "index_of cs t = Some i"
    using index_of_in [of t cs] by auto
  from Cons.prems(3) i obtain m where m: "vs = Some m" "i < length m"
    by (auto split: option.splits if_splits)
  from Cons.prems(3) i m obtain is' rows' where
    r: "resolve_targets cs vs ts = Inr (is', rows')" "rows = m ! i # rows'"
    by (auto split: sum.splits)
  show ?case
  proof (cases "ts = []")
    case True
    with r i m show ?thesis by auto
  next
    case False
    with Cons.IH [OF _ False r(1)] Cons.prems(1) r i m show ?thesis by auto
  qed
qed

lemma fuse_scores_nth:
  "a < length vs \<Longrightarrow>
   fuse_scores toks ts vs ! a = vs ! a + keyword_score toks (ts ! a)"
  by (simp add: fuse_scores_def)

lemma search_empty_targets:
  "(case cands of Some cs \<Rightarrow> cs | None \<Rightarrow> chunks idx) = [] \<Longrightarrow>
   fst (ChunkRetriever_search emb argsort idx q k cands) = Inr ([], [])"
  by (simp add: ChunkRetriever_search_def Let_def)

text \<open>
  When every candidate is a chunk of the corpus, the resolved vectors stay aligned with the
  candidate list, and each returned score is the cosine of the returned chunk (the dot
  product of its stored vector with the normalized query vector) plus its keyword bonus.
\<close>

lemma hybrid_score_aligned:
  assumes ok: "argsort_ok argsort"
      and res: "fst (ChunkRetriever_search emb argsort idx q k cands) = Inr (rs, ss)"
      and al: "\<forall>t\<in>set (case cands of Some cs \<Rightarrow> cs | None \<Rightarrow> chunks idx). t \<in> set (chunks idx)"
      and j: "j < length rs"
  shows "\<exists>m. vectors idx = Some m
           \<and> ss ! j = dot (m ! the (index_of (chunks idx) (rs ! j))) (normalize (emb q))
                      + keyword_score (remdups (split (lower q))) (rs ! j)"
proof -
  let ?ts = "case cands of Some cs \<Rightarrow> cs | None \<Rightarrow> chunks idx"
  let ?toks = "remdups (split (lower q))"
  from j have ne: "rs \<noteq> []" by auto
  have tne: "?ts \<noteq> []"
    using search_empty_targets [where cands = cands and idx = idx and emb = emb
        and argsort = argsort and q = q and k = k]
      res ne by auto
  from search_Inr [OF res ne] obtain "is" rows where
    r: "resolve_targets (chunks idx) (vectors idx) ?ts = Inr (is, rows)"
    and rs: "rs = map (\<lambda>i. ?ts ! i) (top_indices argsort k (fuse_scores ?toks ?ts
                      (map (\<lambda>r. dot r (normalize (emb q))) rows)))"
    and ss: "ss = map (\<lambda>i. fuse_scores ?toks ?ts
                      (map (\<lambda>r. dot r (normalize (emb q))) rows) ! i)
                   (top_indices argsort k (fuse_scores ?toks ?ts
                      (map (\<lambda>r. dot r (normalize (emb q))) rows)))"
    by blast
  from resolve_targets_aligned [OF al tne r] obtain m where
    m: "vectors idx = Some m" "rows = map (\<lambda>t. m ! the (index_of (chunks idx) t)) ?ts"
    by blast
  let ?F = "fuse_scores ?toks ?ts (map (\<lambda>r. dot r (normalize (emb q))) rows)"
  let ?a = "top_indices argsort k ?F ! j"
  have jl: "j < length (top_indices argsort k ?F)" using j rs by simp
  then have "?a \<in> set (top_indices argsort k ?F)" by simp
  then have a: "?a < length ?ts" using top_indices_bound [OF ok, of ?a k ?F] m by simp
  have "ss ! j = ?F ! ?a" using ss jl by simp
  also have "\<dots> = dot (rows ! ?a) (normalize (emb q)) + keyword_score ?toks (?ts ! ?a)"
    using a m by (simp add: fuse_scores_nth)
  also have "rows ! ?a = m ! the (index_of (chunks idx) (?ts ! ?a))"
    using a m by simp
  also have "?ts ! ?a = rs ! j" using rs jl by simp
  finally show ?thesis using m by blast
qed

section \<open>Runs on the example data\<close>

lemma normalize_10: "normalize [1, 0] = [10000000000 / 10000000001, 0]"
  by (simp add: normalize_def l2norm_def)

lemma normalize_01: "normalize [0, 1] = [0, 10000000000 / 10000000001]"
  by (simp add: normalize_def l2norm_def)

lemma unit_cos_val: "unit_cos = 100000000000000000000 / 100000000020000000001"
  by (simp add: unit_cos_def power2_eq_square field_simps)

lemma embed_corpus:
  "demo_embed (content bxh_gpu) = [1, 0]" "demo_embed (content bxh_full) = [0, 1]"
  "demo_embed (content byh_full) = [0, 1]"
  by code_simp+

lemma embed_queries:
  "demo_embed ''which gpu'' = [1, 0]" "demo_embed ''weight'' = [0, 1]"
  "demo_embed ''list products'' = [0, 1]" "demo_embed ''gpu power'' = [1, 0]"
  "demo_embed ''screen'' = [0, 1]"
  by code_simp+

lemma chunks_distinct:
  "bxh_gpu \<noteq> bxh_full" "bxh_gpu \<noteq> byh_full" "bxh_full \<noteq> byh_full"
  "stray_chunk \<noteq> bxh_gpu" "stray_chunk \<noteq> bxh_full" "stray_chunk \<noteq> byh_full"
  "bxh_full \<noteq> bxh_gpu" "byh_full \<noteq> bxh_gpu" "byh_full \<noteq> bxh_full"
  by (simp_all add: bxh_gpu_def bxh_full_def byh_full_def stray_chunk_def)

lemma demo_index_built: "add_chunks demo_embed demo_corpus = Inr demo_index"
  by (simp add: add_chunks_def np_stack_def demo_corpus_def demo_index_def embed_corpus)

lemma tokens:
  "remdups (split (lower ''which gpu'')) = [''which'', ''gpu'']"
  "remdups (split (lower ''weight'')) = [''weight'']"
  "remdups (split (lower ''list products'')) = [''list'', ''products'']"
  by code_simp+

lemma kw_gpu:
  "keyword_score [''which'', ''gpu''] stray_chunk = 0"
  "keyword_score [''which'', ''gpu''] bxh_gpu = 1 / 20"
  by code_simp+

lemma kw_weight:
  "keyword_score [''weight''] bxh_gpu = 0" "keyword_score [''weight''] bxh_full = 0"
  "keyword_score [''weight''] byh_full = 0"
  by code_simp+

lemma kw_list:
  "keyword_score [''list'', ''products''] bxh_gpu = 0"
  "keyword_score [''list'', ''products''] bxh_full = 0"
  "keyword_score [''list'', ''products''] byh_full = 0"
  by code_simp+

lemma top_indices_3: "top_indices stable_argsort k [0, unit_cos, unit_cos] = slice_to k [2, 1, 0]"
  by (simp add: top_indices_def stable_argsort_def upt_rec unit_cos_val numeral_2_eq_2)

lemma search_stray:
  "fst (ChunkRetriever_search demo_embed stable_argsort demo_index ''which gpu'' 3 (Some [stray_chunk, bxh_gpu]))
     = Inr ([stray_chunk], [unit_cos])"
  using chunks_distinct
  by (simp add: ChunkRetriever_search_def Let_def demo_index_def demo_corpus_def tokens
      embed_queries normalize_10 normalize_01 np_stack_def np_dot_def dot_def fuse_scores_def
      kw_gpu top_indices_def slice_to_def stable_argsort_def unit_cos_val)

lemma search_weight:
  "fst (ChunkRetriever_search demo_embed stable_argsort demo_index ''weight'' k None)
     = Inr (map (\<lambda>i. demo_corpus ! i) (slice_to k [2, 1, 0]),
            map (\<lambda>i. [0, unit_cos, unit_cos] ! i) (slice_to k [2, 1, 0]))"
  using chunks_distinct
  by (simp add: ChunkRetriever_search_def Let_def demo_index_def demo_corpus_def tokens
      embed_queries normalize_10 normalize_01 np_stack_def np_dot_def dot_def fuse_scores_def
      kw_weight upt_rec top_indices_3 [unfolded unit_cos_val] unit_cos_val)

lemma search_stray_only:
  "fst (ChunkRetriever_search demo_embed stable_argsort demo_index ''which gpu'' 3 (Some [stray_chunk]))
     = Inr ([], [])"
  using chunks_distinct
  by (simp add: ChunkRetriever_search_def Let_def demo_index_def demo_corpus_def)

lemma search_gpu_only:
  "fst (ChunkRetriever_search demo_embed stable_argsort demo_index ''which gpu'' 3 (Some [bxh_gpu]))
     = Inr ([bxh_gpu], [unit_cos + 1 / 20])"
  using chunks_distinct
  by (simp add: ChunkRetriever_search_def Let_def demo_index_def demo_corpus_def tokens
      embed_queries normalize_10 normalize_01 np_stack_def np_dot_def dot_def fuse_scores_def
      kw_gpu top_indices_def slice_to_def stable_argsort_def unit_cos_val)

lemma top_indices_2: "top_indices stable_argsort k [unit_cos, unit_cos] = slice_to k [1, 0]"
  by (simp add: top_indices_def stable_argsort_def upt_rec unit_cos_val)

lemma qa_search_screen:
  "fst (QARetriever_search demo_embed stable_argsort demo_qa ''screen'' None 2)
     = Inr ([qa_weight, qa_battery], [unit_cos, unit_cos])"
  "fst (QARetriever_search demo_embed stable_argsort demo_qa ''screen'' None 1)
     = Inr ([qa_weight], [unit_cos])"
  by (simp_all add: QARetriever_search_def Let_def demo_qa_def candidate_indices_def
      scope_indices_def p_name_def qa_battery_def qa_weight_def upt_rec take_rows_def
      embed_queries normalize_10 normalize_01 np_dot_def dot_def slice_to_def
      top_indices_2 [unfolded unit_cos_val] unit_cos_val)



text \<open>
  The example index with \<open>top_k\<close> 1 and 2.
\<close>

theorem top_k_prefix_witness:
  "(0::int) \<le> 1
   \<and> fst (ChunkRetriever_search demo_embed stable_argsort demo_index ''weight'' 1 None)
       = Inr ([byh_full], [unit_cos])
   \<and> fst (ChunkRetriever_search demo_embed stable_argsort demo_index ''weight'' (1 + 1) None)
       = Inr ([byh_full, bxh_full], [unit_cos, unit_cos])
   \<and> fst (QARetriever_search demo_embed stable_argsort demo_qa ''screen'' None 1) = Inr ([qa_weight], [unit_cos])
   \<and> fst (QARetriever_search demo_embed stable_argsort demo_qa ''screen'' None (1 + 1))
       = Inr ([qa_weight, qa_battery], [unit_cos, unit_cos])"
  using top_k_prefix [where n = 1 and emb = demo_embed and argsort = stable_argsort and idx = demo_index and q = "''weight''"
      and cands = None and qa = demo_qa and q' = "''screen''" and scope = None]
  by (simp add: search_weight slice_to_def demo_corpus_def qa_search_screen)

text \<open>
  A candidate list holding only a chunk that the corpus lacks, and the empty
  question/answer index.
\<close>

theorem empty_results_not_errors_witness:
  "stray_chunk \<notin> set (chunks demo_index)
   \<and> fst (ChunkRetriever_search demo_embed stable_argsort demo_index ''which gpu'' 3 (Some [stray_chunk]))
       = Inr ([], [])
   \<and> qa_items empty_qa = []
   \<and> QARetriever_search demo_embed stable_argsort empty_qa ''which gpu'' None 1 = (Inr ([], []), [])"
proof -
  have a: "\<forall>t\<in>set [stray_chunk]. t \<notin> set (chunks demo_index)"
    using chunks_distinct by (simp add: demo_index_def demo_corpus_def)
  have b: "qa_items empty_qa = []" by (simp add: empty_qa_def)
  show ?thesis
    using empty_results_not_errors [where cands = "Some [stray_chunk]" and idx = demo_index
        and emb = demo_embed and argsort = stable_argsort and q = "''which gpu''" and k = 3 and qa = empty_qa
        and q' = "''which gpu''" and scope = None and k' = 1] a b
    by simp
qed

text \<open>
  Claim C1 at a candidate list whose first chunk is not in the corpus. The resolving loop
  skips that chunk, so one vector score is computed, the cosine of the GPU chunk. The
  fusion loop then reads \<^verbatim>\<open>target_chunks[0]\<close>, the skipped chunk: the search returns the
  chunk that is not in the corpus, scored with the cosine of the GPU chunk plus its own
  keyword bonus (none). Searched alone, the GPU chunk scores its cosine plus \<open>0.05\<close>.
  Both rankings hold a single score, so they are the same for every \<open>argsort\<close>
  (\<open>top_indices_single\<close>).
\<close>

theorem misaligned_candidate_scores:
  "add_chunks demo_embed demo_corpus = Inr demo_index
   \<and> fst (ChunkRetriever_search demo_embed stable_argsort demo_index ''which gpu'' 3 (Some [stray_chunk, bxh_gpu]))
       = Inr ([stray_chunk], [unit_cos])
   \<and> stray_chunk \<notin> set (chunks demo_index)
   \<and> keyword_score (remdups (split (lower ''which gpu''))) stray_chunk = 0
   \<and> fst (ChunkRetriever_search demo_embed stable_argsort demo_index ''which gpu'' 3 (Some [bxh_gpu]))
       = Inr ([bxh_gpu], [unit_cos + 1 / 20])"
proof (intro conjI)
  show "stray_chunk \<notin> set (chunks demo_index)"
    using chunks_distinct by (simp add: demo_index_def demo_corpus_def)
qed (simp_all add: demo_index_built search_stray search_gpu_only tokens kw_gpu)

lemma scoped_qa_loaded: "load_qa_dataset demo_embed (Some scoped_pairs) = Inr scoped_qa"
proof -
  have e: "demo_embed ''gpu tdp?'' = [1, 0]" "demo_embed ''battery life?'' = [0, 1]"
    by code_simp+
  show ?thesis
    by (simp add: load_qa_dataset_def Let_def scoped_pairs_def scoped_qa_def qa_gpu_bxh_def
        qa_battery_byh_def np_stack_def e)
qed

lemma demo_embed_dim: "\<forall>s. length (demo_embed s) = 2"
  by (simp add: demo_embed_def)

lemma upper_names:
  "upper ''BXH'' = ''BXH''" "upper ''BYH'' = ''BYH''" "upper ''BZH'' = ''BZH''"
  by code_simp+

lemma scoped_qa_nomatch:
  "\<forall>item\<in>set (qa_items scoped_qa).
     upper (p_name item) \<noteq> upper (case Some ''BZH'' of None \<Rightarrow> ''overall'' | Some p \<Rightarrow> p)
     \<and> p_name item \<noteq> ''overall''"
  by (simp add: scoped_qa_def qa_gpu_bxh_def qa_battery_byh_def p_name_def upper_names)

lemma top_indices_10: "top_indices stable_argsort 1 [unit_cos, 0] = [0]"
  by (simp add: top_indices_def stable_argsort_def upt_rec unit_cos_val slice_to_def)

text \<open>
  Two items scoped to BXH and BYH and the scope BZH: the best item of the whole set.
\<close>

theorem qa_scope_fallback_witness:
  "load_qa_dataset demo_embed (Some scoped_pairs) = Inr scoped_qa
   \<and> qa_items scoped_qa = [qa_gpu_bxh, qa_battery_byh]
   \<and> fst (QARetriever_search demo_embed stable_argsort scoped_qa ''gpu power'' (Some ''BZH'') 1)
       = Inr ([qa_gpu_bxh], [unit_cos])"
proof -
  have ne: "qa_items scoped_qa \<noteq> []" by (simp add: scoped_qa_def)
  have e: "demo_embed ''gpu tdp?'' = [1, 0]" "demo_embed ''battery life?'' = [0, 1]"
    by code_simp+
  have sc: "map (\<lambda>item. dot (normalize (demo_embed (question item))) (normalize (demo_embed ''gpu power'')))
              (qa_items scoped_qa) = [unit_cos, 0]"
    by (simp add: scoped_qa_def qa_gpu_bxh_def qa_battery_byh_def e embed_queries normalize_10
        normalize_01 dot_def unit_cos_val)
  show ?thesis
    using qa_scope_fallback [OF scoped_qa_loaded ne demo_embed_dim stable_argsort_ok
        scoped_qa_nomatch, where q = "''gpu power''" and k = 1]
    by (simp add: scoped_qa_loaded sc top_indices_10) (simp add: scoped_qa_def)
qed

lemma embed_questions:
  "demo_embed ''gpu tdp?'' = [1, 0]" "demo_embed ''battery life?'' = [0, 1]"
  "demo_embed ''weight?'' = [0, 1]"
  by code_simp+

lemma upper_empty: "upper [] = []"
  by (simp add: upper_def)

text \<open>
  Claim C7 as stated fails. No item of this index has the product name \<open>BYH\<close> or
  \<open>overall\<close>, yet the search scoped to \<open>BYH\<close> with \<open>top_k = 2\<close> returns only the item
  with the empty product name, which the code reads as \<open>overall\<close>; the better-matching
  item of the whole set is not ranked.
\<close>

theorem qa_scope_fallback_counterexample:
  "qa_items unnamed_qa = [qa_unnamed, qa_gpu_bxh]
   \<and> upper (product_name qa_unnamed) \<noteq> upper ''BYH'' \<and> product_name qa_unnamed \<noteq> ''overall''
   \<and> upper (product_name qa_gpu_bxh) \<noteq> upper ''BYH'' \<and> product_name qa_gpu_bxh \<noteq> ''overall''
   \<and> fst (QARetriever_search demo_embed stable_argsort unnamed_qa ''gpu power'' (Some ''BYH'') 2)
       = Inr ([qa_unnamed], [0])"
proof (intro conjI)
  show "fst (QARetriever_search demo_embed stable_argsort unnamed_qa ''gpu power'' (Some ''BYH'') 2)
       = Inr ([qa_unnamed], [0])"
    by (simp add: QARetriever_search_def Let_def unnamed_qa_def candidate_indices_def
        scope_indices_def p_name_def qa_unnamed_def qa_gpu_bxh_def upt_rec take_rows_def
        embed_queries normalize_10 normalize_01 np_dot_def dot_def slice_to_def upper_names
        upper_overall top_indices_def stable_argsort_def)
qed (simp_all add: unnamed_qa_def qa_unnamed_def qa_gpu_bxh_def upper_names upper_empty)

lemma normalize_34: "normalize [3 / 5, 4 / 5] = [6000000000 / 10000000001, 8000000000 / 10000000001]"
  by (simp add: normalize_def l2norm_def)

lemma graded_embed_texts:
  "graded_embed ''battery life?'' = [3 / 5, 4 / 5]" "graded_embed ''weight?'' = [0, 1]"
  "graded_embed ''gpu tdp?'' = [1, 0]" "graded_embed ''weight'' = [0, 1]"
  by code_simp+

lemma graded_embed_dim: "\<forall>s. length (graded_embed s) = 2"
  by (simp add: graded_embed_def)

lemma mixed_qa_loaded: "load_qa_dataset graded_embed (Some mixed_pairs) = Inr mixed_qa"
  by (simp add: load_qa_dataset_def Let_def mixed_pairs_def mixed_qa_def qa_unnamed_def
      qa_weight_def qa_capital_def qa_gpu_bxh_def np_stack_def graded_embed_texts)

lemma upper_capital: "upper ''Overall'' = ''OVERALL''"
  by code_simp

lemma mixed_selection: "overall_selection (qa_items mixed_qa) = [0, 1, 2]"
  by (simp add: overall_selection_def mixed_qa_def qa_unnamed_def qa_weight_def qa_capital_def
      qa_gpu_bxh_def upt_rec upper_names upper_overall upper_capital)

lemma mixed_cands:
  "candidate_indices [qa_unnamed, qa_weight, qa_capital, qa_gpu_bxh] ''overall'' = [0, 1, 2]"
  using overall_candidates [of mixed_qa] mixed_selection by (simp add: mixed_qa_def)

lemma mixed_ranking:
  "top_indices stable_argsort 4
     [80000000000000000000 / 100000000020000000001,
      100000000000000000000 / 100000000020000000001, 0] = [1, 0, 2]"
  by (simp add: top_indices_def stable_argsort_def upt_rec slice_to_def)

lemma mixed_search:
  "fst (QARetriever_search graded_embed stable_argsort mixed_qa ''weight'' None 4)
     = Inr ([qa_weight, qa_unnamed, qa_capital], [unit_cos, 4 / 5 * unit_cos, 0])"
proof -
  have q: "question qa_unnamed = ''battery life?''" "question qa_weight = ''weight?''"
    "question qa_capital = ''gpu tdp?''"
    by (simp_all add: qa_unnamed_def qa_weight_def qa_capital_def)
  show ?thesis
    by (simp add: QARetriever_search_def Let_def mixed_qa_def mixed_cands take_rows_def
        np_dot_def q graded_embed_texts normalize_34 normalize_01 normalize_10 dot_def
        mixed_ranking unit_cos_val)
qed

text \<open>
  Claim C10 as stated fails in its last part. With the scope \<open>None\<close> the search ranks,
  next to the item named \<open>overall\<close>, the item whose product name is empty and the item
  named \<open>Overall\<close>; the three scores differ, so no tie is involved.
\<close>

theorem none_scope_counterexample:
  "qa_items mixed_qa = [qa_unnamed, qa_weight, qa_capital, qa_gpu_bxh]
   \<and> product_name qa_unnamed = [] \<and> product_name qa_capital = ''Overall''
   \<and> product_name qa_unnamed \<noteq> ''overall'' \<and> product_name qa_capital \<noteq> ''overall''
   \<and> product_name qa_weight = ''overall''
   \<and> fst (QARetriever_search graded_embed stable_argsort mixed_qa ''weight'' None 4)
       = Inr ([qa_weight, qa_unnamed, qa_capital], [unit_cos, 4 / 5 * unit_cos, 0])"
proof (intro conjI)
  show "fst (QARetriever_search graded_embed stable_argsort mixed_qa ''weight'' None 4)
       = Inr ([qa_weight, qa_unnamed, qa_capital], [unit_cos, 4 / 5 * unit_cos, 0])"
    by (rule mixed_search)
qed (simp_all add: mixed_qa_def qa_unnamed_def qa_weight_def qa_capital_def)

text \<open>
  The loaded index with an unnamed item, an \<open>overall\<close> item, an \<open>Overall\<close> item and
  a BXH item: the first three are selected and ranked, the BXH item is not.
\<close>

theorem none_scope_is_overall_witness:
  "load_qa_dataset graded_embed (Some mixed_pairs) = Inr mixed_qa
   \<and> qa_items mixed_qa = [qa_unnamed, qa_weight, qa_capital, qa_gpu_bxh]
   \<and> overall_selection (qa_items mixed_qa) = [0, 1, 2]
   \<and> QARetriever_search graded_embed stable_argsort mixed_qa ''weight'' None 4
       = QARetriever_search graded_embed stable_argsort mixed_qa ''weight'' (Some ''overall'') 4
   \<and> fst (QARetriever_search graded_embed stable_argsort mixed_qa ''weight'' (Some ''overall'') 4)
       = Inr ([qa_weight, qa_unnamed, qa_capital], [unit_cos, 4 / 5 * unit_cos, 0])"
proof -
  have ne: "qa_items mixed_qa \<noteq> []" by (simp add: mixed_qa_def)
  have items: "qa_items mixed_qa = [qa_unnamed, qa_weight, qa_capital, qa_gpu_bxh]"
    by (simp add: mixed_qa_def)
  have eq: "QARetriever_search graded_embed stable_argsort mixed_qa ''weight'' None 4
       = QARetriever_search graded_embed stable_argsort mixed_qa ''weight'' (Some ''overall'') 4"
    using none_scope_is_overall [where emb = graded_embed and argsort = stable_argsort
        and qa = mixed_qa and q = "''weight''" and k = 4 and src = "Some mixed_pairs" and D = 2]
      mixed_qa_loaded ne graded_embed_dim
    by blast
  have "fst (QARetriever_search graded_embed stable_argsort mixed_qa ''weight'' (Some ''overall'') 4)
       = Inr ([qa_weight, qa_unnamed, qa_capital], [unit_cos, 4 / 5 * unit_cos, 0])"
    using eq mixed_search by simp
  with mixed_qa_loaded items mixed_selection eq show ?thesis by simp
qed

lemma full_specs_demo:
  "is_full_specs bxh_gpu = False" "is_full_specs bxh_full" "is_full_specs byh_full"
  by (simp_all add: is_full_specs_def bxh_gpu_def bxh_full_def byh_full_def spec_metadata_def)

lemma compare_query:
  "is_comparison_query ''compare bxh and byh''"
  "contains (lower ''compare'') (lower ''compare bxh and byh'')"
  by code_simp+

lemma list_query:
  "is_comparison_query ''list products'' = False" "is_product_list_query ''list products''"
  by code_simp+

lemma extract_demo:
  "ProductNameExtractor_extract (ProductNameExtractor_init (Some demo_catalog)) ''compare bxh and byh''
     = Inr (Some ''aorus-master-16-bxh'')"
  "ProductNameExtractor_extract (ProductNameExtractor_init (Some demo_catalog)) ''list products''
     = Inr None"
  by code_simp+

text \<open>
  A comparison query over the corpus of two products: the two Full-Specs chunks, each
  with score \<open>1\<close>, and no embedder call.
\<close>

theorem comparison_bypass_witness:
  "is_comparison_query ''compare bxh and byh''
   \<and> retrieve_chunks demo_embed stable_argsort demo_system ''compare bxh and byh'' (Some ''aorus-master-16-bxh'')
       = ([], Inr ([bxh_full, byh_full], [1, 1]), [])"
  using comparison_bypass [OF compare_query(1), where emb = demo_embed and argsort = stable_argsort
      and sys = demo_system and extracted = "Some ''aorus-master-16-bxh''"]
  by (simp add: compare_query demo_system_def demo_corpus_def full_specs_demo numeral_2_eq_2)

lemma plain_queries:
  "is_comparison_query ''is the byh heavy'' = False" "is_comparison_query ''weight'' = False"
  "is_product_list_query ''weight'' = False"
  by code_simp+

text \<open>
  One query for each mode, and a query with the keyword \<open>compare\<close> and the suffix of
  the first product, which takes the Full-Specs bypass.
\<close>

theorem mode_priority_witness:
  "is_comparison_query ''compare bxh and byh''
   \<and> ProductNameExtractor_extract (product_extractor demo_system) ''compare bxh and byh''
       = Inr (Some ''aorus-master-16-bxh'')
   \<and> route ''compare bxh and byh'' (Some ''aorus-master-16-bxh'') = Comparison
   \<and> route ''is the byh heavy'' (Some ''aorus-master-16-byh'') = SpecificProduct ''aorus-master-16-byh''
   \<and> route ''list products'' None = ProductList
   \<and> route ''weight'' None = General
   \<and> retrieve_chunks demo_embed stable_argsort demo_system ''compare bxh and byh''
         (Some ''aorus-master-16-bxh'')
       = ([], Inr ([bxh_full, byh_full], [1, 1]), [])"
proof -
  have e: "ProductNameExtractor_extract (product_extractor demo_system) ''compare bxh and byh''
       = Inr (Some ''aorus-master-16-bxh'')"
    by (simp add: demo_system_def extract_demo)
  have c: "route ''compare bxh and byh'' (Some ''aorus-master-16-bxh'') = Comparison
     \<and> retrieve_chunks demo_embed stable_argsort demo_system ''compare bxh and byh''
         (Some ''aorus-master-16-bxh'')
       = ([], Inr ([bxh_full, byh_full], [1, 1]), [])"
    using mode_priority [where q = "''compare bxh and byh''" and pid = "''aorus-master-16-bxh''"
        and ex = "product_extractor demo_system" and emb = demo_embed
        and argsort = stable_argsort and sys = demo_system] e compare_query(1)
    by (simp add: demo_system_def demo_corpus_def full_specs_demo numeral_2_eq_2)
  have s: "route ''is the byh heavy'' (Some ''aorus-master-16-byh'') = SpecificProduct ''aorus-master-16-byh''"
    using mode_priority [where q = "''is the byh heavy''" and ext = "Some ''aorus-master-16-byh''"
        and pid = "''aorus-master-16-byh''"]
    by (simp add: plain_queries)
  have l: "route ''list products'' None = ProductList"
    using mode_priority [where q = "''list products''" and ext = None]
    by (simp add: list_query)
  have g: "route ''weight'' None = General"
    using mode_priority [where q = "''weight''" and ext = None]
    by (simp add: plain_queries)
  show ?thesis using e c s l g compare_query(1) by simp
qed

lemma search_list:
  "ChunkRetriever_search demo_embed stable_argsort demo_index ''list products'' RETRIEVAL_TOP_K (Some demo_corpus)
     = (Inr ([byh_full, bxh_full, bxh_gpu], [unit_cos, unit_cos, 0]), [''list products''])"
  using chunks_distinct
  by (simp add: ChunkRetriever_search_def Let_def demo_index_def demo_corpus_def tokens
      embed_queries normalize_10 normalize_01 np_stack_def np_dot_def dot_def fuse_scores_def
      kw_list upt_rec top_indices_3 [unfolded unit_cos_val] unit_cos_val RETRIEVAL_TOP_K_def
      slice_to_def)

lemma route_list: "route ''list products'' None = ProductList"
  by (simp add: route_def list_query)

lemma retrieve_list:
  "retrieve_chunks demo_embed stable_argsort demo_system ''list products'' None
     = ([product_list_fact demo_catalog],
        Inr ([byh_full, bxh_full, bxh_gpu], [unit_cos, unit_cos, 0]), [''list products''])"
  by (simp add: retrieve_chunks_def route_list demo_system_def search_list)

lemma qa_search_list:
  "QARetriever_search demo_embed stable_argsort demo_qa ''list products'' (Some ''overall'') 1
     = (Inr ([qa_weight], [unit_cos]), [''list products''])"
  by (simp add: QARetriever_search_def Let_def demo_qa_def candidate_indices_def
      scope_indices_def p_name_def qa_battery_def qa_weight_def upt_rec take_rows_def
      embed_queries normalize_10 normalize_01 np_dot_def dot_def slice_to_def
      top_indices_2 [unfolded unit_cos_val] unit_cos_val)

lemma unit_cos_small: "\<not> unit_cos > 12 / 10"
  by (simp add: unit_cos_val)

lemma process_list:
  "process_query demo_embed stable_argsort demo_system ''list products''
     = (Inr \<lparr>deterministic_facts = [product_list_fact demo_catalog],
             final_chunk_results = [bxh_gpu], final_chunk_scores = [0],
             qa_results = [qa_weight], qa_scores = [unit_cos]\<rparr>,
        [''list products'', ''list products''])"
proof -
  have e: "ProductNameExtractor_extract (product_extractor demo_system) ''list products'' = Inr None"
    by (simp add: demo_system_def extract_demo)
  have q: "qa_retriever demo_system = demo_qa" by (simp add: demo_system_def)
  show ?thesis
    by (simp add: process_query_def e retrieve_list q qa_search_list include_full_specs_def
        filter_results_def full_specs_demo list_query)
qed

text \<open>
  The query \<open>list products\<close> on the example system: ProductList mode injects the fact,
  and both Full-Specs chunks leave the ranked list.
\<close>

theorem full_specs_policy_witness:
  "ProductNameExtractor_extract (product_extractor demo_system) ''list products'' = Inr None
   \<and> retrieve_chunks demo_embed stable_argsort demo_system ''list products'' None
       = ([product_list_fact demo_catalog],
          Inr ([byh_full, bxh_full, bxh_gpu], [unit_cos, unit_cos, 0]), [''list products''])
   \<and> final_chunk_results (projr (fst (process_query demo_embed stable_argsort demo_system ''list products'')))
       = [bxh_gpu]"
proof -
  have e: "ProductNameExtractor_extract (product_extractor demo_system) ''list products'' = Inr None"
    by (simp add: demo_system_def extract_demo)
  have o: "fst (process_query demo_embed stable_argsort demo_system ''list products'')
             = Inr (projr (fst (process_query demo_embed stable_argsort demo_system ''list products'')))"
    by (simp add: process_list)
  show ?thesis
    using full_specs_policy [OF e retrieve_list o] e retrieve_list
    by (simp add: list_query full_specs_demo)
qed

end
